theory Spec2Isabelle
  imports Complex_Main "HOL-Library.AList"
begin

section \<open>Python values\<close>

text \<open>
  The exceptions the modelled code can raise by itself. A Python \<open>float\<close> is modelled as an
  exact rational number: sums, products, quotients and comparisons are those of the
  rationals, so rounding is not part of the model. A Python \<open>dict\<close> is an association list
  in insertion order, read with \<open>map_of\<close> and written with \<open>AList.update\<close>, which replaces
  the value of an existing key in place and appends a new key at the end, as a \<open>dict\<close> does.
  A \<open>datetime\<close> is a point on an integer time line (seconds), and it is either naive
  (without \<open>tzinfo\<close>) or aware. Python orders two naive and two aware values, and raises
  \<open>TypeError\<close> when asked to order a naive and an aware one.
\<close>

datatype py_error = KeyError | IndexError | ValueError | ZeroDivisionError | TypeError

type_synonym py_float = rat

datatype datetime = Naive int | Aware int

section \<open>Data model (models.py)\<close>

text \<open>
  The pydantic models, field by field. The \<open>metadata\<close> of a message and the \<open>tools\<close> of
  a request play no part in the modelled methods and are left out. The record of
  \<open>Experiment\<close> is named \<open>experiment_cfg\<close>, and fields that several models share carry
  a prefix.
\<close>

record message =
  role :: string
  content :: string

record experiment_variant =
  variant_id :: string
  v_name :: string
  provider :: string
  model :: string
  temperature :: py_float
  max_tokens :: "int option"
  system_prompt :: "string option"

record experiment_cfg =
  experiment_id :: string
  e_name :: string
  description :: string
  variants :: "experiment_variant list"
  traffic_split :: "(string \<times> py_float) list"
  start_date :: datetime
  end_date :: "datetime option"
  is_active :: bool

record experiment_metrics =
  m_variant_id :: string
  total_requests :: int
  total_tokens :: int
  total_cost :: py_float
  avg_latency_ms :: py_float
  error_rate :: py_float
  user_satisfaction :: "py_float option"

text \<open>\<open>ExperimentMetrics(variant_id=v)\<close>: every other field takes its default.\<close>

definition new_metrics :: "string \<Rightarrow> experiment_metrics" where
  "new_metrics v =
     \<lparr>m_variant_id = v, total_requests = 0, total_tokens = 0, total_cost = 0,
      avg_latency_ms = 0, error_rate = 0, user_satisfaction = None\<rparr>"

section \<open>ABTestingManager (ab\_testing.py)\<close>

type_synonym metrics_rows = "(string \<times> experiment_metrics) list"

record ab_manager =
  experiments :: "(string \<times> experiment_cfg) list"
  metrics :: "(string \<times> metrics_rows) list"
  salt :: string

definition init_manager :: "string \<Rightarrow> ab_manager" where
  "init_manager s = \<lparr>experiments = [], metrics = [], salt = s\<rparr>"

text \<open>
  \<open>self.metrics\<close> is a \<open>defaultdict(dict)\<close>: reading a missing key stores an empty
  \<open>dict\<close> under it and yields that \<open>dict\<close>.
\<close>

definition metrics_getitem :: "(string \<times> metrics_rows) list \<Rightarrow> string \<Rightarrow> metrics_rows" where
  "metrics_getitem ms eid = (case map_of ms eid of None \<Rightarrow> [] | Some rows \<Rightarrow> rows)"

text \<open>The loop \<open>for variant in experiment.variants: self.metrics[eid][vid] = ExperimentMetrics(...)\<close>.\<close>

fun init_variant_metrics ::
  "string \<Rightarrow> experiment_variant list \<Rightarrow> (string \<times> metrics_rows) list \<Rightarrow> (string \<times> metrics_rows) list"
where
  "init_variant_metrics eid [] ms = ms"
| "init_variant_metrics eid (v # vs) ms =
     init_variant_metrics eid vs
       (AList.update eid
          (AList.update (variant_id v) (new_metrics (variant_id v)) (metrics_getitem ms eid)) ms)"

text \<open>\<open>sum(xs)\<close>: the additions are made from left to right, starting from 0.\<close>

definition py_sum :: "py_float list \<Rightarrow> py_float" where
  "py_sum xs = foldl (+) 0 xs"

definition create_experiment :: "ab_manager \<Rightarrow> experiment_cfg \<Rightarrow> bool \<times> ab_manager" where
  "create_experiment self e =
     (let total_traffic = py_sum (map snd (traffic_split e)) in
      if \<not> (99 / 100 \<le> total_traffic \<and> total_traffic \<le> 101 / 100) then (False, self)
      else
        let variant_ids = set (map variant_id (variants e));
            split_ids = set (map fst (traffic_split e))
        in if variant_ids \<noteq> split_ids then (False, self)
           else
             let self1 = self\<lparr>experiments := AList.update (experiment_id e) e (experiments self)\<rparr>;
                 self2 = self1\<lparr>metrics :=
                           init_variant_metrics (experiment_id e) (variants e) (metrics self1)\<rparr>
             in (True, self2))"

text \<open>
  \<open>int(s, 16)\<close> on a string of hexadecimal digits; \<open>None\<close> stands for \<open>ValueError\<close>
  (the empty string, or a character that is no digit). A \<open>hexdigest\<close> holds nothing but
  the digits \<open>0-9a-f\<close>.
\<close>

definition hex_digit :: "char \<Rightarrow> nat option" where
  "hex_digit c =
     (let n = of_char c :: nat in
      if 48 \<le> n \<and> n \<le> 57 then Some (n - 48)
      else if 97 \<le> n \<and> n \<le> 102 then Some (n - 87)
      else if 65 \<le> n \<and> n \<le> 70 then Some (n - 55)
      else None)"

fun int_base16_acc :: "nat \<Rightarrow> string \<Rightarrow> nat option" where
  "int_base16_acc acc [] = Some acc"
| "int_base16_acc acc (c # cs) =
     (case hex_digit c of None \<Rightarrow> None | Some d \<Rightarrow> int_base16_acc (16 * acc + d) cs)"

definition int_base16 :: "string \<Rightarrow> nat option" where
  "int_base16 s = (if s = [] then None else int_base16_acc 0 s)"

text \<open>
  The loop of \<open>assign_variant\<close> over \<open>experiment.variants\<close>: \<open>Inr (Some v)\<close> is the
  \<open>return variant\<close> inside the loop, \<open>Inr None\<close> the loop running to its end, and
  \<open>Inl KeyError\<close> the subscript \<open>traffic_split[variant.variant_id]\<close> on a missing key.
\<close>

fun assign_loop ::
  "(string \<times> py_float) list \<Rightarrow> py_float \<Rightarrow> py_float \<Rightarrow> experiment_variant list
     \<Rightarrow> py_error + experiment_variant option"
where
  "assign_loop split random_value cumulative [] = Inr None"
| "assign_loop split random_value cumulative (v # vs) =
     (case map_of split (variant_id v) of
        None \<Rightarrow> Inl KeyError
      | Some fraction \<Rightarrow>
          (let cumulative' = cumulative + fraction in
           if random_value < cumulative' then Inr (Some v)
           else assign_loop split random_value cumulative' vs))"

text \<open>
  The test \<open>experiment.end_date and now > experiment.end_date\<close>. \<open>now\<close> is the reading of
  \<open>datetime.utcnow()\<close>, which is naive: the comparison with an aware end date raises
  \<open>TypeError\<close>. A \<open>datetime\<close> is never false, so only a missing end date skips the
  comparison.
\<close>

definition end_date_passed :: "int \<Rightarrow> datetime option \<Rightarrow> py_error + bool" where
  "end_date_passed now ed =
     (case ed of
        None \<Rightarrow> Inr False
      | Some (Naive d) \<Rightarrow> Inr (now > d)
      | Some (Aware d) \<Rightarrow> Inl TypeError)"

text \<open>
  \<open>assign_variant\<close>. The SHA-256 \<open>hexdigest\<close> of \<open>hashlib\<close> and the clock
  \<open>datetime.utcnow()\<close> are parameters: \<open>sha256_hexdigest\<close> and \<open>now\<close>.
\<close>

definition assign_variant ::
  "(string \<Rightarrow> string) \<Rightarrow> int \<Rightarrow> ab_manager \<Rightarrow> string \<Rightarrow> string
     \<Rightarrow> py_error + experiment_variant option"
where
  "assign_variant sha256_hexdigest now self eid uid =
     (case map_of (experiments self) eid of
        None \<Rightarrow> Inr None
      | Some e \<Rightarrow>
          if \<not> is_active e then Inr None
          else
            (case end_date_passed now (end_date e) of
               Inl err \<Rightarrow> Inl err
             | Inr True \<Rightarrow> Inr None
             | Inr False \<Rightarrow>
                 (let hash_input = eid @ '':'' @ uid @ '':'' @ salt self;
                      hash_value = sha256_hexdigest hash_input
                  in case int_base16 (take 16 hash_value) of
                       None \<Rightarrow> Inl ValueError
                     | Some hash_int \<Rightarrow>
                         (let random_value = (of_nat (hash_int mod 10000) :: py_float) / 10000 in
                          case assign_loop (traffic_split e) random_value 0 (variants e) of
                            Inl err \<Rightarrow> Inl err
                          | Inr (Some v) \<Rightarrow> Inr (Some v)
                          | Inr None \<Rightarrow>
                              (case variants e of
                                 [] \<Rightarrow> Inl IndexError
                               | v # _ \<Rightarrow> Inr (Some v))))))"

text \<open>
  \<open>record_metrics\<close> and \<open>record_satisfaction\<close> mutate the metrics object in place: the row
  keeps its position in its \<open>dict\<close>. The first component of the result is the exception
  that left the method, if any; the second is the manager as the call leaves it.
\<close>

definition store_row :: "ab_manager \<Rightarrow> string \<Rightarrow> string \<Rightarrow> experiment_metrics \<Rightarrow> ab_manager" where
  "store_row self eid vid m =
     self\<lparr>metrics := AList.update eid (AList.update vid m (metrics_getitem (metrics self) eid))
                        (metrics self)\<rparr>"

definition record_metrics ::
  "ab_manager \<Rightarrow> string \<Rightarrow> string \<Rightarrow> int \<Rightarrow> py_float \<Rightarrow> py_float \<Rightarrow> bool
     \<Rightarrow> py_error option \<times> ab_manager"
where
  "record_metrics self eid vid tokens cost latency_ms error =
     (case map_of (metrics self) eid of
        None \<Rightarrow> (None, self)
      | Some rows \<Rightarrow>
          (case map_of rows vid of
             None \<Rightarrow> (None, self)
           | Some m \<Rightarrow>
               (let n = total_requests m;
                    m1 = m\<lparr>total_requests := total_requests m + 1\<rparr>;
                    m2 = m1\<lparr>total_tokens := total_tokens m1 + tokens\<rparr>;
                    m3 = m2\<lparr>total_cost := total_cost m2 + cost\<rparr>
                in if n + 1 = 0 then (Some ZeroDivisionError, store_row self eid vid m3)
                   else
                     (let m4 = m3\<lparr>avg_latency_ms :=
                                  (avg_latency_ms m3 * of_int n + latency_ms) / of_int (n + 1)\<rparr>;
                          error_count = error_rate m4 * of_int n + (if error then 1 else 0);
                          m5 = m4\<lparr>error_rate := error_count / of_int (n + 1)\<rparr>
                      in (None, store_row self eid vid m5)))))"

definition record_satisfaction ::
  "ab_manager \<Rightarrow> string \<Rightarrow> string \<Rightarrow> py_float \<Rightarrow> py_error option \<times> ab_manager"
where
  "record_satisfaction self eid vid score =
     (case map_of (metrics self) eid of
        None \<Rightarrow> (None, self)
      | Some rows \<Rightarrow>
          (case map_of rows vid of
             None \<Rightarrow> (None, self)
           | Some m \<Rightarrow>
               (case user_satisfaction m of
                  None \<Rightarrow> (None, store_row self eid vid (m\<lparr>user_satisfaction := Some score\<rparr>))
                | Some us \<Rightarrow>
                    (let n = total_requests m in
                     if n = 0 then (Some ZeroDivisionError, self)
                     else (None, store_row self eid vid
                             (m\<lparr>user_satisfaction := Some ((us * of_int (n - 1) + score) / of_int n)\<rparr>))))))"

definition stop_experiment :: "ab_manager \<Rightarrow> string \<Rightarrow> ab_manager" where
  "stop_experiment self eid =
     (case map_of (experiments self) eid of
        None \<Rightarrow> self
      | Some e \<Rightarrow> self\<lparr>experiments := AList.update eid (e\<lparr>is_active := False\<rparr>) (experiments self)\<rparr>)"

text \<open>
  \<open>get_experiment_results\<close>: \<open>None\<close> is the \<open>{"error": ...}\<close> dictionary; otherwise the
  value is the \<open>"variants"\<close> entry, one snapshot per metrics row in the order of the rows.
  The subscript \<open>self.metrics[experiment_id]\<close> stores an empty \<open>dict\<close> when the key is
  missing. The \<open>"statistical_analysis"\<close> entry (numpy and scipy arithmetic) is left out:
  \<open>get_winner\<close> never reads it.
\<close>

record variant_result =
  r_variant_id :: string
  r_total_requests :: int
  r_total_tokens :: int
  r_total_cost :: py_float
  r_avg_latency_ms :: py_float
  r_error_rate :: py_float
  r_user_satisfaction :: "py_float option"
  r_cost_per_request :: py_float

definition variant_snapshot :: "string \<Rightarrow> experiment_metrics \<Rightarrow> variant_result" where
  "variant_snapshot vid m =
     \<lparr>r_variant_id = vid,
      r_total_requests = total_requests m,
      r_total_tokens = total_tokens m,
      r_total_cost = total_cost m,
      r_avg_latency_ms = avg_latency_ms m,
      r_error_rate = error_rate m,
      r_user_satisfaction = user_satisfaction m,
      r_cost_per_request =
        (if total_requests m > 0 then total_cost m / of_int (total_requests m) else 0)\<rparr>"

definition get_experiment_results ::
  "ab_manager \<Rightarrow> string \<Rightarrow> (string \<times> variant_result) list option \<times> ab_manager"
where
  "get_experiment_results self eid =
     (case map_of (experiments self) eid of
        None \<Rightarrow> (None, self)
      | Some e \<Rightarrow>
          (let variant_metrics = metrics_getitem (metrics self) eid;
               self' = (case map_of (metrics self) eid of
                          None \<Rightarrow> self\<lparr>metrics := AList.update eid [] (metrics self)\<rparr>
                        | Some rows \<Rightarrow> self)
           in (Some (map (\<lambda>(vid, m). (vid, variant_snapshot vid m)) variant_metrics), self')))"

text \<open>\<open>x or 0.5\<close>: Python takes \<open>0.5\<close> when \<open>x\<close> is \<open>None\<close> and also when it is \<open>0.0\<close>.\<close>

definition or_default :: "py_float option \<Rightarrow> py_float \<Rightarrow> py_float" where
  "or_default x d = (case x of None \<Rightarrow> d | Some v \<Rightarrow> if v = 0 then d else v)"

definition variant_score :: "variant_result \<Rightarrow> py_float" where
  "variant_score r =
     (1 - r_error_rate r) * (4 / 10)
     + (1 - min (r_avg_latency_ms r / 5000) 1) * (3 / 10)
     + or_default (r_user_satisfaction r) (5 / 10) * (3 / 10)"

text \<open>The loop of \<open>get_winner\<close>; \<open>best_score = None\<close> is \<open>float("-inf")\<close>.\<close>

fun winner_loop ::
  "(string \<times> variant_result) list \<Rightarrow> string option \<Rightarrow> py_float option \<Rightarrow> string option"
where
  "winner_loop [] best_variant best_score = best_variant"
| "winner_loop ((vid, r) # rest) best_variant best_score =
     (let score = variant_score r in
      if (case best_score of None \<Rightarrow> True | Some b \<Rightarrow> score > b)
      then winner_loop rest (Some vid) (Some score)
      else winner_loop rest best_variant best_score)"

definition get_winner :: "ab_manager \<Rightarrow> string \<Rightarrow> string option \<times> ab_manager" where
  "get_winner self eid =
     (case get_experiment_results self eid of
        (None, self') \<Rightarrow> (None, self')
      | (Some results, self') \<Rightarrow> (winner_loop results None None, self'))"

subsection \<open>States of the manager\<close>

text \<open>
  The states an \<open>ABTestingManager\<close> goes through: it starts empty and changes only through
  its own methods.
\<close>

inductive reachable :: "ab_manager \<Rightarrow> bool" where
  r_init: "reachable (init_manager s)"
| r_create: "reachable self \<Longrightarrow> reachable (snd (create_experiment self e))"
| r_metrics:
    "reachable self \<Longrightarrow> reachable (snd (record_metrics self eid vid tokens cost latency_ms error))"
| r_satisfaction: "reachable self \<Longrightarrow> reachable (snd (record_satisfaction self eid vid score))"
| r_stop: "reachable self \<Longrightarrow> reachable (stop_experiment self eid)"
| r_results: "reachable self \<Longrightarrow> reachable (snd (get_experiment_results self eid))"

text \<open>The two checks of \<open>create_experiment\<close>, as a property of a configuration.\<close>

definition valid_config :: "experiment_cfg \<Rightarrow> bool" where
  "valid_config e =
     (99 / 100 \<le> py_sum (map snd (traffic_split e))
      \<and> py_sum (map snd (traffic_split e)) \<le> 101 / 100
      \<and> set (map variant_id (variants e)) = set (map fst (traffic_split e)))"

text \<open>The metrics row of a pair (experiment id, variant id), if there is one.\<close>

definition metrics_row :: "ab_manager \<Rightarrow> string \<Rightarrow> string \<Rightarrow> experiment_metrics option" where
  "metrics_row self eid vid =
     (case map_of (metrics self) eid of None \<Rightarrow> None | Some rows \<Rightarrow> map_of rows vid)"

subsection \<open>The assignment rule, as the specification words it\<close>

definition is_hexdigest :: "string \<Rightarrow> bool" where
  "is_hexdigest s = (length s = 64 \<and> list_all (\<lambda>c. c \<in> set ''0123456789abcdef'') s)"

text \<open>A string of hexadecimal digits read as an unsigned integer, most significant digit first.\<close>

definition hex_value :: "string \<Rightarrow> nat" where
  "hex_value s = foldl (\<lambda>a c. 16 * a + the (hex_digit c)) 0 s"

definition spec_random_value :: "(string \<Rightarrow> string) \<Rightarrow> string \<Rightarrow> string \<Rightarrow> string \<Rightarrow> py_float" where
  "spec_random_value sha256_hexdigest slt eid uid =
     of_nat (hex_value (take 16 (sha256_hexdigest (eid @ '':'' @ uid @ '':'' @ slt))) mod 10000)
       / 10000"

text \<open>
  The cumulative traffic fraction of the variants up to and including position \<open>i\<close>,
  accumulated from 0 in declared order.
\<close>

definition cumulative_fraction ::
  "(string \<times> py_float) list \<Rightarrow> experiment_variant list \<Rightarrow> nat \<Rightarrow> py_float"
where
  "cumulative_fraction split vs i =
     py_sum (map (\<lambda>v. the (map_of split (variant_id v))) (take (Suc i) vs))"

text \<open>
  The first variant, in declared order, whose cumulative fraction strictly exceeds the
  value; the first declared variant when there is none.
\<close>

definition spec_assign ::
  "(string \<times> py_float) list \<Rightarrow> experiment_variant list \<Rightarrow> py_float \<Rightarrow> experiment_variant"
where
  "spec_assign split vs x =
     (case find (\<lambda>i. x < cumulative_fraction split vs i) [0..<length vs] of
        Some i \<Rightarrow> vs ! i
      | None \<Rightarrow> hd vs)"

subsection \<open>The winner rule, as the specification words it\<close>

text \<open>A recorded satisfaction is used as it is; \<open>0.5\<close> stands in only when none is recorded.\<close>

definition spec_score :: "variant_result \<Rightarrow> py_float" where
  "spec_score r =
     (4 / 10) * (1 - r_error_rate r)
     + (3 / 10) * (1 - min (r_avg_latency_ms r / 5000) 1)
     + (3 / 10) * (case r_user_satisfaction r of None \<Rightarrow> 5 / 10 | Some v \<Rightarrow> v)"

text \<open>The first variant, in the order seen, whose score is the highest.\<close>

definition spec_winner :: "(string \<times> variant_result) list \<Rightarrow> string option" where
  "spec_winner results =
     (if results = [] then None
      else map_option fst
             (find (\<lambda>(vid, r). spec_score r = Max (set (map (\<lambda>(vid, r). spec_score r) results)))
                results))"

section \<open>ProviderManager (provider\_manager.py)\<close>

text \<open>
  What a provider call can raise, as the manager tells it apart: \<open>RateLimitError\<close>, caught
  by the first handler, and every other \<open>Exception\<close>, caught by the second. Both carry the
  text that \<open>str(e)\<close> gives.
\<close>

datatype exc = RateLimitError string | OtherError string

fun str_exc :: "exc \<Rightarrow> string" where
  "str_exc (RateLimitError msg) = msg"
| "str_exc (OtherError msg) = msg"

datatype 'r outcome = Returns 'r | Raises exc

text \<open>
  A provider is an external capability. \<open>complete\<close> gives the outcome of one call for the
  forwarded arguments (messages, \<open>max_tokens\<close>, temperature, tools: the payload \<open>'a\<close>) and
  the selected model. \<open>stream_complete\<close> gives the chunks the asynchronous generator yields
  and how it ends: \<open>None\<close> when it is exhausted, \<open>Some e\<close> when it raises \<open>e\<close> after them.
\<close>

record ('a, 'r, 'c) llm_provider =
  p_name :: string
  supported_models :: "string list"
  complete :: "'a \<Rightarrow> string \<Rightarrow> 'r outcome"
  stream_complete :: "'a \<Rightarrow> string \<Rightarrow> 'c list \<times> exc option"

record ('a, 'r, 'c) provider_manager =
  providers :: "(string \<times> ('a, 'r, 'c) llm_provider) list"
  fallback_order :: "string list"

text \<open>What leaves the manager: the \<open>ValueError\<close> of the model selection or a plain \<open>Exception\<close>.\<close>

datatype raised = Raised_ValueError string | Raised_Exception string

text \<open>What a call does that its caller can observe, in order.\<close>

datatype 'c event = Attempt string string | Sleep nat | Yield 'c

definition select_model_for_provider ::
  "('a, 'r, 'c) llm_provider \<Rightarrow> string option \<Rightarrow> raised + string"
where
  "select_model_for_provider p requested_model =
     (let supported = supported_models p in
      if (case requested_model of None \<Rightarrow> False | Some m \<Rightarrow> m \<noteq> [] \<and> m \<in> set supported)
      then Inr (the requested_model)
      else
        (case supported of
           first_model # _ \<Rightarrow> Inr first_model
         | [] \<Rightarrow> Inl (Raised_ValueError (''No supported models for provider '' @ p_name p))))"

definition provider_order :: "('a, 'r, 'c) provider_manager \<Rightarrow> string option \<Rightarrow> string list" where
  "provider_order self provider_name =
     (case provider_name of
        None \<Rightarrow> fallback_order self
      | Some n \<Rightarrow>
          if n \<noteq> [] then n # filter (\<lambda>p. p \<noteq> n) (fallback_order self)
          else fallback_order self)"

text \<open>\<open>enumerate(xs, 1)\<close>.\<close>

definition enumerate1 :: "'x list \<Rightarrow> (nat \<times> 'x) list" where
  "enumerate1 xs = zip [1..<Suc (length xs)] xs"

text \<open>\<open>sep.join(xs)\<close>.\<close>

fun join :: "string \<Rightarrow> string list \<Rightarrow> string" where
  "join sep [] = []"
| "join sep [x] = x"
| "join sep (x # y # ys) = x @ sep @ join sep (y # ys)"

definition str_last_error :: "exc option \<Rightarrow> string" where
  "str_last_error last_error = (case last_error of None \<Rightarrow> ''None'' | Some e \<Rightarrow> str_exc e)"

definition all_providers_failed :: "string list \<Rightarrow> exc option \<Rightarrow> raised" where
  "all_providers_failed attempts last_error =
     Raised_Exception
       (''All providers failed. Attempts: '' @ join ''; '' attempts @ ''. Last error: ''
          @ str_last_error last_error)"

definition all_streaming_failed :: "exc option \<Rightarrow> raised" where
  "all_streaming_failed last_error =
     Raised_Exception (''All streaming providers failed. Last error: '' @ str_last_error last_error)"

text \<open>
  The loop of \<open>complete_with_fallback\<close> over \<open>enumerate(provider_order, 1)\<close>;
  \<open>n\<close> is \<open>len(provider_order)\<close> and \<open>enable_fallback\<close> the setting of that name. The
  trace \<open>tr\<close> collects the provider calls and the sleeps made so far.
\<close>

fun complete_loop ::
  "('a, 'r, 'c) provider_manager \<Rightarrow> bool \<Rightarrow> 'a \<Rightarrow> string option \<Rightarrow> nat \<Rightarrow> (nat \<times> string) list
     \<Rightarrow> exc option \<Rightarrow> string list \<Rightarrow> 'c event list \<Rightarrow> 'c event list \<times> (raised + 'r)"
where
  "complete_loop self enable_fallback args requested n [] last_error attempts tr =
     (tr, Inl (all_providers_failed attempts last_error))"
| "complete_loop self enable_fallback args requested n ((attempt, prov_name) # rest)
       last_error attempts tr =
     (case map_of (providers self) prov_name of
        None \<Rightarrow> complete_loop self enable_fallback args requested n rest last_error attempts tr
      | Some p \<Rightarrow>
          (case select_model_for_provider p requested of
             Inl err \<Rightarrow> (tr, Inl err)
           | Inr provider_model \<Rightarrow>
               (case complete p args provider_model of
                  Returns response \<Rightarrow> (tr @ [Attempt prov_name provider_model], Inr response)
                | Raises (RateLimitError msg) \<Rightarrow>
                    (let last_error' = Some (RateLimitError msg);
                         attempts' = attempts @ [prov_name @ '': Rate limit exceeded'']
                     in if enable_fallback \<and> attempt < n
                        then complete_loop self enable_fallback args requested n rest
                               last_error' attempts'
                               (tr @ [Attempt prov_name provider_model, Sleep (min (2 ^ attempt) 10)])
                        else (tr @ [Attempt prov_name provider_model],
                              Inl (all_providers_failed attempts' last_error')))
                | Raises (OtherError msg) \<Rightarrow>
                    (let last_error' = Some (OtherError msg);
                         attempts' = attempts @ [prov_name @ '': '' @ msg]
                     in if enable_fallback \<and> attempt < n
                        then complete_loop self enable_fallback args requested n rest
                               last_error' attempts' (tr @ [Attempt prov_name provider_model])
                        else (tr @ [Attempt prov_name provider_model],
                              Inl (all_providers_failed attempts' last_error'))))))"

definition complete_with_fallback ::
  "('a, 'r, 'c) provider_manager \<Rightarrow> bool \<Rightarrow> 'a \<Rightarrow> string option \<Rightarrow> string option
     \<Rightarrow> 'c event list \<times> (raised + 'r)"
where
  "complete_with_fallback self enable_fallback args requested provider_name =
     (let order = provider_order self provider_name in
      complete_loop self enable_fallback args requested (length order) (enumerate1 order)
        None [] [])"

text \<open>
  The loop of \<open>stream_with_fallback\<close>. The second component of the result is \<open>None\<close> when
  the generator returns and \<open>Some\<close> of what it raises otherwise; the trace holds, in order,
  the provider calls, the chunks yielded to the caller and the sleeps.
\<close>

fun stream_loop ::
  "('a, 'r, 'c) provider_manager \<Rightarrow> bool \<Rightarrow> 'a \<Rightarrow> string option \<Rightarrow> nat \<Rightarrow> (nat \<times> string) list
     \<Rightarrow> exc option \<Rightarrow> 'c event list \<Rightarrow> 'c event list \<times> raised option"
where
  "stream_loop self enable_fallback args requested n [] last_error tr =
     (tr, Some (all_streaming_failed last_error))"
| "stream_loop self enable_fallback args requested n ((attempt, prov_name) # rest) last_error tr =
     (case map_of (providers self) prov_name of
        None \<Rightarrow> stream_loop self enable_fallback args requested n rest last_error tr
      | Some p \<Rightarrow>
          (case select_model_for_provider p requested of
             Inl err \<Rightarrow> (tr, Some err)
           | Inr provider_model \<Rightarrow>
               (case stream_complete p args provider_model of
                  (chunks, None) \<Rightarrow>
                    (tr @ Attempt prov_name provider_model # map Yield chunks, None)
                | (chunks, Some (RateLimitError msg)) \<Rightarrow>
                    (let last_error' = Some (RateLimitError msg);
                         tr' = tr @ Attempt prov_name provider_model # map Yield chunks
                     in if enable_fallback \<and> attempt < n
                        then stream_loop self enable_fallback args requested n rest last_error'
                               (tr' @ [Sleep (min (2 ^ attempt) 10)])
                        else (tr', Some (all_streaming_failed last_error')))
                | (chunks, Some (OtherError msg)) \<Rightarrow>
                    (let last_error' = Some (OtherError msg);
                         tr' = tr @ Attempt prov_name provider_model # map Yield chunks
                     in if enable_fallback \<and> attempt < n
                        then stream_loop self enable_fallback args requested n rest last_error' tr'
                        else (tr', Some (all_streaming_failed last_error'))))))"

definition stream_with_fallback ::
  "('a, 'r, 'c) provider_manager \<Rightarrow> bool \<Rightarrow> 'a \<Rightarrow> string option \<Rightarrow> string option
     \<Rightarrow> 'c event list \<times> raised option"
where
  "stream_with_fallback self enable_fallback args requested provider_name =
     (let order = provider_order self provider_name in
      stream_loop self enable_fallback args requested (length order) (enumerate1 order) None [])"

subsection \<open>Fail-over, candidate by candidate\<close>

text \<open>
  The candidates of a call: the entries of the attempt order that name a registered
  provider, each with its position in the order, counted from 1.
\<close>

definition registered ::
  "('a, 'r, 'c) provider_manager \<Rightarrow> (nat \<times> string) list
     \<Rightarrow> (nat \<times> string \<times> ('a, 'r, 'c) llm_provider) list"
where
  "registered self xs =
     List.map_filter
       (\<lambda>(k, name). map_option (\<lambda>p. (k, name, p)) (map_of (providers self) name)) xs"

definition candidates ::
  "('a, 'r, 'c) provider_manager \<Rightarrow> string list
     \<Rightarrow> (nat \<times> string \<times> ('a, 'r, 'c) llm_provider) list"
where
  "candidates self order = registered self (enumerate1 order)"

definition chosen_model :: "('a, 'r, 'c) llm_provider \<Rightarrow> string option \<Rightarrow> string" where
  "chosen_model p requested =
     (case select_model_for_provider p requested of Inr m \<Rightarrow> m | Inl err \<Rightarrow> [])"

text \<open>
  A candidate at position \<open>k\<close> of \<open>n\<close> ends the call when it succeeds (\<open>ending = None\<close>), and
  when it fails unless fallback is enabled and candidates remain.
\<close>

definition stops_after :: "bool \<Rightarrow> nat \<Rightarrow> nat \<Rightarrow> exc option \<Rightarrow> bool" where
  "stops_after enable_fallback n k ending =
     (case ending of None \<Rightarrow> True | Some e \<Rightarrow> \<not> (enable_fallback \<and> k < n))"

text \<open>The sleep after a failed candidate: only after a rate limit, and only when the call goes on.\<close>

definition backoff :: "bool \<Rightarrow> nat \<Rightarrow> nat \<Rightarrow> exc option \<Rightarrow> 'c event list" where
  "backoff enable_fallback n k ending =
     (case ending of
        Some (RateLimitError msg) \<Rightarrow>
          if enable_fallback \<and> k < n then [Sleep (min (2 ^ k) 10)] else []
      | Some (OtherError msg) \<Rightarrow> []
      | None \<Rightarrow> [])"

text \<open>The elements of a list up to and including the first one that stops.\<close>

definition tried_until :: "('x \<Rightarrow> bool) \<Rightarrow> 'x list \<Rightarrow> 'x list" where
  "tried_until stop xs =
     takeWhile (\<lambda>x. \<not> stop x) xs @ take 1 (dropWhile (\<lambda>x. \<not> stop x) xs)"


definition stream_ending ::
  "'a \<Rightarrow> string option \<Rightarrow> nat \<times> string \<times> ('a, 'r, 'c) llm_provider \<Rightarrow> exc option"
where
  "stream_ending args requested c =
     (case c of (k, name, p) \<Rightarrow> snd (stream_complete p args (chosen_model p requested)))"

text \<open>The candidates a call tries, given how each of them ends.\<close>

definition tried ::
  "bool \<Rightarrow> nat \<Rightarrow> (nat \<times> string \<times> ('a, 'r, 'c) llm_provider \<Rightarrow> exc option)
     \<Rightarrow> (nat \<times> string \<times> ('a, 'r, 'c) llm_provider) list
     \<Rightarrow> (nat \<times> string \<times> ('a, 'r, 'c) llm_provider) list"
where
  "tried enable_fallback n ending cs =
     tried_until (\<lambda>c. stops_after enable_fallback n (fst c) (ending c)) cs"





definition stream_events ::
  "bool \<Rightarrow> nat \<Rightarrow> 'a \<Rightarrow> string option \<Rightarrow> nat \<times> string \<times> ('a, 'r, 'c) llm_provider
     \<Rightarrow> 'c event list"
where
  "stream_events enable_fallback n args requested c =
     (case c of (k, name, p) \<Rightarrow>
        Attempt name (chosen_model p requested)
          # map Yield (fst (stream_complete p args (chosen_model p requested)))
          @ backoff enable_fallback n k (stream_ending args requested c))"

definition stream_result ::
  "'a \<Rightarrow> string option \<Rightarrow> (nat \<times> string \<times> ('a, 'r, 'c) llm_provider) list \<Rightarrow> raised option"
where
  "stream_result args requested cs =
     (if cs = [] then Some (all_streaming_failed None)
      else
        (case stream_ending args requested (last cs) of
           None \<Rightarrow> None
         | Some e \<Rightarrow> Some (all_streaming_failed (Some e))))"

text \<open>Every registered provider supports at least one model.\<close>

definition has_models :: "('a, 'r, 'c) provider_manager \<Rightarrow> bool" where
  "has_models self = list_all (\<lambda>(name, p). supported_models p \<noteq> []) (providers self)"

section \<open>The experiment override of the request pipeline (main.py)\<close>

text \<open>
  The handler works on one \<open>ChatRequest\<close> object and on the list object its \<open>messages\<close>
  field refers to. Both live in a store, so that a change made through one reference is
  seen through every other. A reference that the store does not hold leaves the store as
  it is; Python has no such reference.
\<close>

type_synonym ref = nat

record chat_request =
  req_messages :: ref
  req_model :: "string option"
  req_provider :: "string option"
  req_stream :: bool
  req_max_tokens :: "int option"
  req_temperature :: "py_float option"
  req_user_id :: "string option"
  req_session_id :: "string option"
  req_experiment_id :: "string option"

record store =
  req_objs :: "ref \<Rightarrow> chat_request option"
  list_objs :: "ref \<Rightarrow> message list option"

text \<open>Python truth of an optional string and of an optional integer.\<close>

definition truthy_str :: "string option \<Rightarrow> bool" where
  "truthy_str x = (case x of None \<Rightarrow> False | Some s \<Rightarrow> s \<noteq> [])"

definition truthy_int :: "int option \<Rightarrow> bool" where
  "truthy_int x = (case x of None \<Rightarrow> False | Some i \<Rightarrow> i \<noteq> 0)"

text \<open>The body of \<open>if variant:\<close> in \<open>create_chat_completion\<close>.\<close>

definition apply_variant :: "store \<Rightarrow> ref \<Rightarrow> experiment_variant \<Rightarrow> store" where
  "apply_variant st r variant =
     (case req_objs st r of
        None \<Rightarrow> st
      | Some req \<Rightarrow>
          (let req1 = req\<lparr>req_provider := Some (provider variant)\<rparr>;
               req2 = req1\<lparr>req_model := Some (model variant)\<rparr>;
               req3 = req2\<lparr>req_temperature := Some (temperature variant)\<rparr>;
               req4 = (if truthy_int (max_tokens variant)
                       then req3\<lparr>req_max_tokens := max_tokens variant\<rparr> else req3);
               st1 = st\<lparr>req_objs := (req_objs st)(r \<mapsto> req4)\<rparr>
           in if truthy_str (system_prompt variant)
              then
                (case list_objs st1 (req_messages req4) of
                   None \<Rightarrow> st1
                 | Some msgs \<Rightarrow>
                     (let system_msg = \<lparr>role = ''system'', content = the (system_prompt variant)\<rparr>
                      in st1\<lparr>list_objs :=
                               (list_objs st1)(req_messages req4 \<mapsto> system_msg # msgs)\<rparr>))
              else st1))"

text \<open>
  The step "A/B testing variant assignment" of \<open>create_chat_completion\<close>;
  \<open>enable_ab_testing\<close> is the setting of that name. The result is the assigned variant and
  the store as the step leaves it.
\<close>

definition experiment_override ::
  "bool \<Rightarrow> (string \<Rightarrow> string) \<Rightarrow> int \<Rightarrow> ab_manager \<Rightarrow> store \<Rightarrow> ref
     \<Rightarrow> py_error + (experiment_variant option \<times> store)"
where
  "experiment_override enable_ab_testing sha256_hexdigest now mgr st r =
     (case req_objs st r of
        None \<Rightarrow> Inr (None, st)
      | Some req \<Rightarrow>
          if enable_ab_testing \<and> truthy_str (req_experiment_id req) \<and> truthy_str (req_user_id req)
          then
            (case assign_variant sha256_hexdigest now mgr
                    (the (req_experiment_id req)) (the (req_user_id req)) of
               Inl err \<Rightarrow> Inl err
             | Inr None \<Rightarrow> Inr (None, st)
             | Inr (Some variant) \<Rightarrow> Inr (Some variant, apply_variant st r variant))
          else Inr (None, st))"

subsection \<open>What holds in every state of the manager\<close>

text \<open>
  Every stored experiment passed the checks of \<open>create_experiment\<close>, metrics exist only
  for stored experiments, and no request count is negative.
\<close>

definition manager_inv :: "ab_manager \<Rightarrow> bool" where
  "manager_inv self =
     ((\<forall>eid e. map_of (experiments self) eid = Some e \<longrightarrow> valid_config e)
      \<and> (\<forall>eid. map_of (experiments self) eid = None \<longrightarrow> map_of (metrics self) eid = None)
      \<and> (\<forall>eid vid m. metrics_row self eid vid = Some m \<longrightarrow> 0 \<le> total_requests m))"

subsection \<open>The metrics update, as the specification words it\<close>

text \<open>
  The online formulas, with \<open>n\<close> the request count before the increment. The satisfaction
  and the variant id of the row stay as they are.
\<close>

definition spec_update ::
  "experiment_metrics \<Rightarrow> int \<Rightarrow> py_float \<Rightarrow> py_float \<Rightarrow> bool \<Rightarrow> experiment_metrics"
where
  "spec_update m tokens cost x is_error =
     (let n = total_requests m in
      m\<lparr>total_requests := n + 1,
        total_tokens := total_tokens m + tokens,
        total_cost := total_cost m + cost,
        avg_latency_ms := (avg_latency_ms m * of_int n + x) / of_int (n + 1),
        error_rate := (error_rate m * of_int n + (if is_error then 1 else 0)) / of_int (n + 1)\<rparr>)"

text \<open>A sequence of \<open>record_metrics\<close> calls for one pair, as a test loop makes them.\<close>

fun record_all ::
  "ab_manager \<Rightarrow> string \<Rightarrow> string \<Rightarrow> (int \<times> py_float \<times> py_float \<times> bool) list \<Rightarrow> ab_manager"
where
  "record_all self eid vid [] = self"
| "record_all self eid vid ((tokens, cost, latency_ms, error) # calls) =
     record_all (snd (record_metrics self eid vid tokens cost latency_ms error)) eid vid calls"

subsection \<open>The experiment of the test suite (tests/test\_ab\_testing.py)\<close>

definition control_variant :: experiment_variant where
  "control_variant =
     \<lparr>variant_id = ''control'', v_name = ''Control'', provider = ''openai'', model = ''gpt-4'',
      temperature = 7 / 10, max_tokens = None, system_prompt = None\<rparr>"

definition variant_a :: experiment_variant where
  "variant_a =
     \<lparr>variant_id = ''variant_a'', v_name = ''Variant A'', provider = ''anthropic'',
      model = ''claude-3-sonnet-20240229'', temperature = 5 / 10, max_tokens = None,
      system_prompt = None\<rparr>"

definition test_experiment :: experiment_cfg where
  "test_experiment =
     \<lparr>experiment_id = ''test_exp_1'', e_name = ''Test Experiment'',
      description = ''Testing different providers'',
      variants = [control_variant, variant_a],
      traffic_split = [(''control'', 1 / 2), (''variant_a'', 1 / 2)],
      start_date = Naive 0, end_date = None, is_active = True\<rparr>"

definition test_manager :: ab_manager where
  "test_manager = snd (create_experiment (init_manager ''default-salt'') test_experiment)"



text \<open>The manager of the test suite after one recorded request for each variant.\<close>

definition used_manager :: ab_manager where
  "used_manager =
     record_all (record_all test_manager ''test_exp_1'' ''control'' [(100, 1 / 100, 500, False)])
       ''test_exp_1'' ''variant_a'' [(120, 15 / 1000, 450, False)]"

text \<open>
  A digest function for examples: on the string \<open>test_exp_1:user_123:default-salt\<close> it
  gives the SHA-256 digest of that string.
\<close>

definition test_digest :: "string \<Rightarrow> string" where
  "test_digest s =
     (if s = ''test_exp_1:user_123:default-salt''
      then ''c84b88a5f60fccd9928aa7742545c6e2bec3943b3c011534336036acedf5ab97''
      else replicate 64 (CHR ''0''))"

text \<open>
  The manager of the test suite after one request for each variant, equal in latency and
  outcome, and one satisfaction score for each: 0.0 for \<open>control\<close>, 0.4 for \<open>variant_a\<close>.
\<close>

definition rated_manager :: ab_manager where
  "rated_manager =
     snd (record_satisfaction
       (snd (record_satisfaction
         (snd (record_metrics
           (snd (record_metrics test_manager ''test_exp_1'' ''control'' 100 (1 / 100) 500 False))
           ''test_exp_1'' ''variant_a'' 100 (1 / 100) 500 False))
         ''test_exp_1'' ''control'' 0))
       ''test_exp_1'' ''variant_a'' (4 / 10))"

subsection \<open>Example providers\<close>

text \<open>The providers called, and the seconds slept, in a trace.\<close>

definition attempted :: "'c event list \<Rightarrow> string list" where
  "attempted tr = concat (map (\<lambda>ev. case ev of Attempt name m \<Rightarrow> [name] | Sleep d \<Rightarrow> [] | Yield c \<Rightarrow> []) tr)"


text \<open>
  Providers with fixed behaviour: one that is rate limited, one whose stream breaks after
  a first chunk, one that answers, and one that fails; and managers built from them.
\<close>

definition openai_limited :: "(unit, string, string) llm_provider" where
  "openai_limited =
     \<lparr>p_name = ''openai'', supported_models = [''gpt-4'', ''gpt-3.5-turbo''],
      complete = (\<lambda>args m. Raises (RateLimitError ''429 too many requests'')),
      stream_complete = (\<lambda>args m. ([], Some (RateLimitError ''429 too many requests'')))\<rparr>"

definition openai_cut :: "(unit, string, string) llm_provider" where
  "openai_cut =
     \<lparr>p_name = ''openai'', supported_models = [''gpt-4'', ''gpt-3.5-turbo''],
      complete = (\<lambda>args m. Raises (OtherError ''connection reset'')),
      stream_complete = (\<lambda>args m. ([''Hel''], Some (OtherError ''connection reset'')))\<rparr>"

definition anthropic_ok :: "(unit, string, string) llm_provider" where
  "anthropic_ok =
     \<lparr>p_name = ''anthropic'', supported_models = [''claude-3-sonnet-20240229''],
      complete = (\<lambda>args m. Returns (''answer of '' @ m)),
      stream_complete = (\<lambda>args m. ([''Hello'', '' world''], None))\<rparr>"

definition anthropic_down :: "(unit, string, string) llm_provider" where
  "anthropic_down =
     \<lparr>p_name = ''anthropic'', supported_models = [''claude-3-sonnet-20240229''],
      complete = (\<lambda>args m. Raises (OtherError ''overloaded'')),
      stream_complete = (\<lambda>args m. ([], Some (OtherError ''overloaded'')))\<rparr>"

definition limited_then_ok :: "(unit, string, string) provider_manager" where
  "limited_then_ok =
     \<lparr>providers = [(''openai'', openai_limited), (''anthropic'', anthropic_ok)],
      fallback_order = [''openai'', ''anthropic'']\<rparr>"

definition cut_then_ok :: "(unit, string, string) provider_manager" where
  "cut_then_ok =
     \<lparr>providers = [(''openai'', openai_cut), (''anthropic'', anthropic_ok)],
      fallback_order = [''openai'', ''anthropic'']\<rparr>"

definition all_down :: "(unit, string, string) provider_manager" where
  "all_down =
     \<lparr>providers = [(''openai'', openai_limited), (''anthropic'', anthropic_down)],
      fallback_order = [''openai'', ''anthropic'']\<rparr>"

subsection \<open>An example request\<close>

text \<open>
  The experiment of the test suite with a second variant that sets \<open>max_tokens\<close> and a
  system prompt, and a store with one request (reference 0) whose message list
  (reference 1) already starts with a system message.
\<close>

definition prompt_variant :: experiment_variant where
  "prompt_variant =
     variant_a\<lparr>max_tokens := Some 256, system_prompt := Some ''Answer briefly.''\<rparr>"

definition prompt_manager :: ab_manager where
  "prompt_manager =
     snd (create_experiment test_manager
            (test_experiment\<lparr>variants := [control_variant, prompt_variant]\<rparr>))"

definition request_store :: store where
  "request_store =
     \<lparr>req_objs = Map.empty(0 \<mapsto>
        \<lparr>req_messages = 1, req_model = Some ''gpt-4'', req_provider = None, req_stream = False,
         req_max_tokens = None, req_temperature = Some (7 / 10), req_user_id = Some ''user_123'',
         req_session_id = None, req_experiment_id = Some ''test_exp_1''\<rparr>),
      list_objs = Map.empty(1 \<mapsto>
        [\<lparr>role = ''system'', content = ''You are a support agent.''\<rparr>,
         \<lparr>role = ''user'', content = ''Where is my order?''\<rparr>])\<rparr>"

subsection \<open>An experiment with an aware end date\<close>

text \<open>
  The experiment of the test suite as \<open>POST /experiments\<close> builds it from the end date
  \<open>2030-01-01T00:00:00+00:00\<close>: \<open>datetime.fromisoformat\<close> gives an aware value for a string
  with an offset. \<open>naive_experiment\<close> has the same end date written without the offset.
\<close>

definition aware_experiment :: experiment_cfg where
  "aware_experiment = test_experiment\<lparr>end_date := Some (Aware 1893456000)\<rparr>"

definition naive_experiment :: experiment_cfg where
  "naive_experiment = test_experiment\<lparr>end_date := Some (Naive 1893456000)\<rparr>"

definition aware_manager :: ab_manager where
  "aware_manager = snd (create_experiment (init_manager ''default-salt'') aware_experiment)"

definition naive_manager :: ab_manager where
  "naive_manager = snd (create_experiment (init_manager ''default-salt'') naive_experiment)"

section \<open>Properties\<close>

subsection \<open>Sums\<close>

lemma py_sum_Nil [simp]: "py_sum [] = 0"
  by (simp add: py_sum_def)

lemma py_sum_Cons [simp]: "py_sum (x # xs) = foldl (+) x xs"
  by (simp add: py_sum_def)

subsection \<open>Metrics rows\<close>

lemma init_variant_metrics_other:
  "k \<noteq> eid \<Longrightarrow> map_of (init_variant_metrics eid vs ms) k = map_of ms k"
  by (induction vs arbitrary: ms) (simp_all add: update_conv')

lemma map_of_fold_rows:
  "map_of (fold (\<lambda>v. AList.update (variant_id v) (new_metrics (variant_id v))) vs rows) vid =
     (if vid \<in> variant_id ` set vs then Some (new_metrics vid) else map_of rows vid)"
  by (induction vs arbitrary: rows rule: rev_induct) (auto simp: update_conv')

lemma init_variant_metrics_same:
  "map_of (init_variant_metrics eid vs ms) eid =
     (if vs = [] then map_of ms eid
      else Some (fold (\<lambda>v. AList.update (variant_id v) (new_metrics (variant_id v))) vs
                   (metrics_getitem ms eid)))"
proof (induction vs arbitrary: ms)
  case Nil
  then show ?case by simp
next
  case (Cons v vs)
  show ?case
    by (simp add: Cons.IH update_conv' metrics_getitem_def)
qed

lemma metrics_row_init:
  assumes "metrics self' = init_variant_metrics eid vs (metrics self)"
  shows "metrics_row self' eid' vid =
           (if eid' = eid \<and> vid \<in> variant_id ` set vs then Some (new_metrics vid)
            else metrics_row self eid' vid)"
proof (cases "eid' = eid")
  case True
  then show ?thesis
    by (cases "vs = []")
       (simp_all add: assms metrics_row_def init_variant_metrics_same map_of_fold_rows
          metrics_getitem_def split: option.splits)
next
  case False
  then show ?thesis
    by (simp add: assms metrics_row_def init_variant_metrics_other)
qed

lemma metrics_row_store_row:
  "metrics_row (store_row self eid vid m) eid' vid' =
     (if eid' = eid \<and> vid' = vid then Some m else metrics_row self eid' vid')"
  by (auto simp: metrics_row_def store_row_def update_conv' metrics_getitem_def
        split: option.splits)

lemma metrics_store_row_None:
  "map_of (metrics (store_row self eid vid m)) eid' = None
     \<longleftrightarrow> eid' \<noteq> eid \<and> map_of (metrics self) eid' = None"
  by (auto simp: store_row_def update_conv')

lemma experiments_store_row [simp]: "experiments (store_row self eid vid m) = experiments self"
  by (simp add: store_row_def)

lemma salt_store_row [simp]: "salt (store_row self eid vid m) = salt self"
  by (simp add: store_row_def)

lemma create_experiment_valid:
  "valid_config e \<Longrightarrow>
     create_experiment self e =
       (True, self\<lparr>experiments := AList.update (experiment_id e) e (experiments self),
                   metrics := init_variant_metrics (experiment_id e) (variants e) (metrics self)\<rparr>)"
  by (simp add: create_experiment_def valid_config_def Let_def)

lemma create_experiment_invalid:
  "\<not> valid_config e \<Longrightarrow> create_experiment self e = (False, self)"
  by (auto simp: create_experiment_def valid_config_def Let_def)

lemma valid_config_variants: "valid_config e \<Longrightarrow> variants e \<noteq> []"
proof
  assume v: "valid_config e" and "variants e = []"
  then have "traffic_split e = []" by (simp add: valid_config_def)
  with v show False by (simp add: valid_config_def)
qed

lemma metrics_row_create:
  assumes "valid_config e"
  shows "metrics_row (snd (create_experiment self e)) eid vid =
           (if eid = experiment_id e \<and> vid \<in> variant_id ` set (variants e)
            then Some (new_metrics vid) else metrics_row self eid vid)"
  by (rule metrics_row_init) (simp add: create_experiment_valid [OF assms])

lemma record_metrics_unknown:
  "metrics_row self eid vid = None \<Longrightarrow>
     record_metrics self eid vid tokens cost latency_ms error = (None, self)"
  by (cases "map_of (metrics self) eid")
     (simp_all add: record_metrics_def metrics_row_def)

lemma record_satisfaction_unknown:
  "metrics_row self eid vid = None \<Longrightarrow> record_satisfaction self eid vid score = (None, self)"
  by (cases "map_of (metrics self) eid")
     (simp_all add: record_satisfaction_def metrics_row_def)

lemma record_metrics_row:
  assumes "metrics_row self eid vid = Some m" and "total_requests m + 1 \<noteq> 0"
  shows "record_metrics self eid vid tokens cost latency_ms error =
           (None, store_row self eid vid (spec_update m tokens cost latency_ms error))"
  using assms
  by (auto simp: record_metrics_def metrics_row_def spec_update_def Let_def split: option.splits)

lemma record_metrics_cases:
  "snd (record_metrics self eid vid tokens cost latency_ms error) = self
   \<or> (\<exists>m m'. metrics_row self eid vid = Some m \<and> total_requests m' = total_requests m + 1
        \<and> snd (record_metrics self eid vid tokens cost latency_ms error) = store_row self eid vid m')"
proof (cases "metrics_row self eid vid")
  case None
  then show ?thesis by (simp add: record_metrics_unknown)
next
  case (Some m)
  then obtain rows where r: "map_of (metrics self) eid = Some rows" "map_of rows vid = Some m"
    by (auto simp: metrics_row_def split: option.splits)
  show ?thesis
  proof (cases "total_requests m + 1 = 0")
    case True
    then have "snd (record_metrics self eid vid tokens cost latency_ms error) =
                 store_row self eid vid
                   (m\<lparr>total_requests := total_requests m + 1,
                      total_tokens := total_tokens m + tokens, total_cost := total_cost m + cost\<rparr>)"
      using r by (simp add: record_metrics_def Let_def)
    with Some show ?thesis by (intro disjI2 exI conjI) auto
  next
    case False
    then have "snd (record_metrics self eid vid tokens cost latency_ms error) =
                 store_row self eid vid (spec_update m tokens cost latency_ms error)"
      using Some by (simp add: record_metrics_row)
    moreover have "total_requests (spec_update m tokens cost latency_ms error) = total_requests m + 1"
      by (simp add: spec_update_def Let_def)
    ultimately show ?thesis using Some by blast
  qed
qed

lemma record_satisfaction_cases:
  "snd (record_satisfaction self eid vid score) = self
   \<or> (\<exists>m m'. metrics_row self eid vid = Some m \<and> total_requests m' = total_requests m
        \<and> snd (record_satisfaction self eid vid score) = store_row self eid vid m')"
proof (cases "metrics_row self eid vid")
  case None
  then show ?thesis by (simp add: record_satisfaction_unknown)
next
  case (Some m)
  then obtain rows where r: "map_of (metrics self) eid = Some rows" "map_of rows vid = Some m"
    by (auto simp: metrics_row_def split: option.splits)
  show ?thesis
  proof (cases "user_satisfaction m")
    case None
    then have "snd (record_satisfaction self eid vid score) =
                 store_row self eid vid (m\<lparr>user_satisfaction := Some score\<rparr>)"
      using r by (simp add: record_satisfaction_def)
    with Some show ?thesis by (intro disjI2 exI conjI) auto
  next
    case (Some us)
    show ?thesis
    proof (cases "total_requests m = 0")
      case True
      then show ?thesis using r Some by (simp add: record_satisfaction_def)
    next
      case False
      then have "snd (record_satisfaction self eid vid score) =
                   store_row self eid vid
                     (m\<lparr>user_satisfaction :=
                          Some ((us * of_int (total_requests m - 1) + score)
                                  / of_int (total_requests m))\<rparr>)"
        using r Some by (simp add: record_satisfaction_def Let_def)
      with \<open>metrics_row self eid vid = Some m\<close> show ?thesis
        by (intro disjI2 exI conjI) auto
    qed
  qed
qed

lemma metrics_row_SomeD: "metrics_row self eid vid = Some m \<Longrightarrow> map_of (metrics self) eid \<noteq> None"
  by (auto simp: metrics_row_def split: option.splits)

lemma inv_store_row:
  assumes "manager_inv self" and "metrics_row self eid vid = Some m"
    and "0 \<le> total_requests m'"
  shows "manager_inv (store_row self eid vid m')"
  using assms metrics_row_SomeD [OF assms(2)]
  unfolding manager_inv_def
  by (auto simp: metrics_row_store_row metrics_store_row_None)

lemma inv_create: 
  assumes "manager_inv self"
  shows "manager_inv (snd (create_experiment self e))"
proof (cases "valid_config e")
  case False
  then show ?thesis using assms by (simp add: create_experiment_invalid)
next
  case True
  let ?s = "snd (create_experiment self e)"
  have ex: "map_of (experiments ?s) = (map_of (experiments self))(experiment_id e \<mapsto> e)"
    by (simp add: create_experiment_valid [OF True] update_conv')
  have me: "\<And>k. k \<noteq> experiment_id e \<Longrightarrow> map_of (metrics ?s) k = map_of (metrics self) k"
    by (simp add: create_experiment_valid [OF True] init_variant_metrics_other)
  show ?thesis
    unfolding manager_inv_def
  proof (intro conjI allI impI)
    fix eid x assume "map_of (experiments ?s) eid = Some x"
    then show "valid_config x"
      using assms True by (auto simp: ex manager_inv_def split: if_splits)
  next
    fix eid assume "map_of (experiments ?s) eid = None"
    then have "eid \<noteq> experiment_id e" and "map_of (experiments self) eid = None"
      by (auto simp: ex split: if_splits)
    then show "map_of (metrics ?s) eid = None"
      using assms by (simp add: me manager_inv_def)
  next
    fix eid vid m assume "metrics_row ?s eid vid = Some m"
    then show "0 \<le> total_requests m"
      using assms by (auto simp: metrics_row_create [OF True] manager_inv_def new_metrics_def split: if_splits)
  qed
qed

lemma inv_stop: 
  assumes "manager_inv self"
  shows "manager_inv (stop_experiment self eid)"
proof (cases "map_of (experiments self) eid")
  case None
  then show ?thesis using assms by (simp add: stop_experiment_def)
next
  case (Some e)
  then have "valid_config e" using assms by (simp add: manager_inv_def)
  then have "valid_config (e\<lparr>is_active := False\<rparr>)" by (simp add: valid_config_def)
  then show ?thesis
    using assms Some
    by (auto simp: stop_experiment_def manager_inv_def update_conv' metrics_row_def split: if_splits)
qed

lemma inv_results:
  assumes "manager_inv self"
  shows "manager_inv (snd (get_experiment_results self eid))"
  using assms
  by (auto simp: get_experiment_results_def manager_inv_def update_conv' metrics_row_def Let_def
        split: option.splits if_splits)

lemma reachable_inv: "reachable self \<Longrightarrow> manager_inv self"
proof (induction rule: reachable.induct)
  case (r_init s)
  then show ?case by (simp add: manager_inv_def init_manager_def metrics_row_def)
next
  case (r_create self e)
  then show ?case by (simp add: inv_create)
next
  case (r_metrics self eid vid tokens cost latency_ms error)
  let ?s = "snd (record_metrics self eid vid tokens cost latency_ms error)"
  from record_metrics_cases [of self eid vid tokens cost latency_ms error]
  consider "?s = self"
    | m m' where "metrics_row self eid vid = Some m" "total_requests m' = total_requests m + 1"
        "?s = store_row self eid vid m'"
    by blast
  then show ?case
  proof cases
    case 1
    then show ?thesis using r_metrics.IH by simp
  next
    case 2
    from r_metrics.IH 2(1) have "0 \<le> total_requests m" by (auto simp: manager_inv_def)
    with 2(2) have "0 \<le> total_requests m'" by simp
    with r_metrics.IH 2(1,3) show ?thesis by (simp add: inv_store_row)
  qed
next
  case (r_satisfaction self eid vid score)
  let ?s = "snd (record_satisfaction self eid vid score)"
  from record_satisfaction_cases [of self eid vid score]
  consider "?s = self"
    | m m' where "metrics_row self eid vid = Some m" "total_requests m' = total_requests m"
        "?s = store_row self eid vid m'"
    by blast
  then show ?case
  proof cases
    case 1
    then show ?thesis using r_satisfaction.IH by simp
  next
    case 2
    from r_satisfaction.IH 2(1) have "0 \<le> total_requests m" by (auto simp: manager_inv_def)
    with 2(2) have "0 \<le> total_requests m'" by simp
    with r_satisfaction.IH 2(1,3) show ?thesis by (simp add: inv_store_row)
  qed
next
  case (r_stop self eid)
  then show ?case by (simp add: inv_stop)
next
  case (r_results self eid)
  then show ?case by (simp add: inv_results)
qed

lemma valid_test_experiment: "valid_config test_experiment"
  by (simp add: valid_config_def test_experiment_def control_variant_def variant_a_def)

lemma test_manager_eq:
  "test_manager =
     \<lparr>experiments = [(''test_exp_1'', test_experiment)],
      metrics = [(''test_exp_1'',
                  [(''control'', new_metrics ''control''), (''variant_a'', new_metrics ''variant_a'')])],
      salt = ''default-salt''\<rparr>"
  by (simp add: test_manager_def create_experiment_valid [OF valid_test_experiment])
     (simp add: init_manager_def metrics_getitem_def test_experiment_def control_variant_def
        variant_a_def)

lemma reachable_test_manager: "reachable test_manager"
  unfolding test_manager_def by (intro reachable.intros)

subsection \<open>C5: registration validates, then stores\<close>



lemma record_all_reachable: "reachable self \<Longrightarrow> reachable (record_all self eid vid calls)"
  by (induction self eid vid calls rule: record_all.induct) (auto intro: reachable.intros)

lemma reachable_used_manager: "reachable used_manager"
  unfolding used_manager_def by (intro record_all_reachable reachable_test_manager)

lemma metrics_row_record:
  assumes "metrics_row self eid vid = Some m" and "total_requests m + 1 \<noteq> 0"
  shows "metrics_row (snd (record_metrics self eid vid tokens cost latency_ms error)) eid' vid' =
           (if eid' = eid \<and> vid' = vid then Some (spec_update m tokens cost latency_ms error)
            else metrics_row self eid' vid')"
  by (simp add: record_metrics_row [OF assms] metrics_row_store_row)

lemma metrics_row_record_all:
  assumes "metrics_row self eid vid = Some m" and "0 \<le> total_requests m"
  shows "metrics_row (record_all self eid vid calls) eid' vid' =
           (if eid' = eid \<and> vid' = vid
            then Some (fold (\<lambda>(tokens, cost, x, is_error) m. spec_update m tokens cost x is_error) calls m)
            else metrics_row self eid' vid')"
  using assms
proof (induction self eid vid calls arbitrary: m rule: record_all.induct)
  case (1 self eid vid)
  then show ?case by auto
next
  case (2 self eid vid tokens cost latency_ms error calls)
  let ?m = "spec_update m tokens cost latency_ms error"
  have nz: "total_requests m + 1 \<noteq> 0" using 2(3) by simp
  have row: "metrics_row (snd (record_metrics self eid vid tokens cost latency_ms error)) eid vid = Some ?m"
    by (simp add: metrics_row_record [OF 2(2) nz])
  have nn: "0 \<le> total_requests ?m" using 2(3) by (simp add: spec_update_def Let_def)
  show ?case
    by (simp add: "2.IH" [OF row nn] metrics_row_record [OF 2(2) nz])
qed

lemma experiments_record_metrics [simp]:
  "experiments (snd (record_metrics self eid vid tokens cost latency_ms error)) = experiments self"
  using record_metrics_cases [of self eid vid tokens cost latency_ms error] by auto

lemma experiments_record_all [simp]: "experiments (record_all self eid vid calls) = experiments self"
  by (induction self eid vid calls rule: record_all.induct) auto


lemma used_manager_rows:
  "metrics_row used_manager ''test_exp_1'' ''control''
     = Some (spec_update (new_metrics ''control'') 100 (1 / 100) 500 False)"
  "metrics_row used_manager ''test_exp_1'' ''variant_a''
     = Some (spec_update (new_metrics ''variant_a'') 120 (15 / 1000) 450 False)"
  "metrics_row used_manager ''test_exp_1'' ''variant_b'' = None"
proof -
  have c: "metrics_row test_manager ''test_exp_1'' ''control'' = Some (new_metrics ''control'')"
    and a: "metrics_row test_manager ''test_exp_1'' ''variant_a'' = Some (new_metrics ''variant_a'')"
    and b: "metrics_row test_manager ''test_exp_1'' ''variant_b'' = None"
    by (simp_all add: test_manager_eq metrics_row_def)
  have c0: "0 \<le> total_requests (new_metrics ''control'')"
    and a0: "0 \<le> total_requests (new_metrics ''variant_a'')"
    by (simp_all add: new_metrics_def)
  let ?s = "record_all test_manager ''test_exp_1'' ''control'' [(100, 1 / 100, 500, False)]"
  have a': "metrics_row ?s ''test_exp_1'' ''variant_a'' = Some (new_metrics ''variant_a'')"
    by (simp del: record_all.simps add: metrics_row_record_all [OF c c0] a)
  show "metrics_row used_manager ''test_exp_1'' ''control''
     = Some (spec_update (new_metrics ''control'') 100 (1 / 100) 500 False)"
    unfolding used_manager_def
    by (simp del: record_all.simps add: metrics_row_record_all [OF a' a0] metrics_row_record_all [OF c c0])
  show "metrics_row used_manager ''test_exp_1'' ''variant_a''
     = Some (spec_update (new_metrics ''variant_a'') 120 (15 / 1000) 450 False)"
    unfolding used_manager_def
    by (simp del: record_all.simps add: metrics_row_record_all [OF a' a0])
  show "metrics_row used_manager ''test_exp_1'' ''variant_b'' = None"
    unfolding used_manager_def
    by (simp del: record_all.simps add: metrics_row_record_all [OF a' a0] metrics_row_record_all [OF c c0] b)
qed

subsection \<open>C10: registering an id again\<close>



subsection \<open>C8: unknown ids\<close>

text \<open>
  Claim C8. In every state of the manager, \<open>record_metrics\<close> and
  \<open>record_satisfaction\<close> for an experiment id that is not registered, or for a pair
  (experiment id, variant id) that has no metrics row, return without raising and leave
  the manager exactly as it was: no experiment entry and no metrics row is created.
\<close>

theorem record_unknown_noop:
  assumes "reachable self"
    and "map_of (experiments self) eid = None \<or> metrics_row self eid vid = None"
  shows "record_metrics self eid vid tokens cost latency_ms error = (None, self)
     \<and> record_satisfaction self eid vid score = (None, self)"
proof -
  have "metrics_row self eid vid = None"
  proof (cases "map_of (experiments self) eid")
    case None
    with reachable_inv [OF assms(1)] have "map_of (metrics self) eid = None"
      by (simp add: manager_inv_def)
    then show ?thesis by (simp add: metrics_row_def)
  next
    case (Some e)
    with assms(2) show ?thesis by simp
  qed
  then show ?thesis
    by (simp add: record_metrics_unknown record_satisfaction_unknown)
qed

theorem record_unknown_noop_witness:
  "record_metrics used_manager ''stopped_exp'' ''control'' 100 (1 / 100) 500 False = (None, used_manager)
   \<and> record_satisfaction used_manager ''stopped_exp'' ''control'' (8 / 10) = (None, used_manager)
   \<and> record_metrics used_manager ''test_exp_1'' ''variant_b'' 100 (1 / 100) 500 True = (None, used_manager)
   \<and> record_satisfaction used_manager ''test_exp_1'' ''variant_b'' (8 / 10) = (None, used_manager)"
proof -
  have "map_of (experiments used_manager) ''stopped_exp'' = None"
    by (simp add: used_manager_def test_manager_eq)
  then show ?thesis
    using record_unknown_noop [OF reachable_used_manager, of "''stopped_exp''" "''control''"]
      record_unknown_noop [OF reachable_used_manager, of "''test_exp_1''" "''variant_b''"]
      used_manager_rows(3)
    by simp
qed

subsection \<open>C6: the online update\<close>

text \<open>
  Claim C6. In every state of the manager, \<open>record_metrics\<close> for a pair that has a
  metrics row \<open>m\<close> returns without raising and replaces the row by \<open>spec_update m\<close>:
  request count plus one, tokens and cost added, and average latency and error rate
  updated by the online formulas with \<open>n\<close> the count before the increment. Starting from
  a zeroed row, five calls with latencies 500, 600, 700, 800, 900 give an average latency
  of 700 and a request count of 5.
\<close>

theorem record_metrics_online_update:
  assumes "reachable self" and "metrics_row self eid vid = Some m"
  shows "record_metrics self eid vid tokens cost x is_error
           = (None, store_row self eid vid (spec_update m tokens cost x is_error))
     \<and> metrics_row (snd (record_metrics self eid vid tokens cost x is_error)) eid vid
           = Some (spec_update m tokens cost x is_error)
     \<and> (total_requests m = 0 \<and> avg_latency_ms m = 0 \<longrightarrow>
          map_option avg_latency_ms
            (metrics_row
               (record_all self eid vid
                  [(t1, c1, 500, e1), (t2, c2, 600, e2), (t3, c3, 700, e3), (t4, c4, 800, e4),
                   (t5, c5, 900, e5)]) eid vid) = Some 700
          \<and> map_option total_requests
            (metrics_row
               (record_all self eid vid
                  [(t1, c1, 500, e1), (t2, c2, 600, e2), (t3, c3, 700, e3), (t4, c4, 800, e4),
                   (t5, c5, 900, e5)]) eid vid) = Some 5)"
proof -
  have nn: "0 \<le> total_requests m"
    using reachable_inv [OF assms(1)] assms(2) by (auto simp: manager_inv_def)
  then have nz: "total_requests m + 1 \<noteq> 0" by simp
  have 1: "record_metrics self eid vid tokens cost x is_error
           = (None, store_row self eid vid (spec_update m tokens cost x is_error))"
    by (rule record_metrics_row [OF assms(2) nz])
  have 2: "metrics_row (snd (record_metrics self eid vid tokens cost x is_error)) eid vid
           = Some (spec_update m tokens cost x is_error)"
    by (simp add: metrics_row_record [OF assms(2) nz])
  have 3: "total_requests m = 0 \<and> avg_latency_ms m = 0 \<longrightarrow>
          map_option avg_latency_ms
            (metrics_row
               (record_all self eid vid
                  [(t1, c1, 500, e1), (t2, c2, 600, e2), (t3, c3, 700, e3), (t4, c4, 800, e4),
                   (t5, c5, 900, e5)]) eid vid) = Some 700
          \<and> map_option total_requests
            (metrics_row
               (record_all self eid vid
                  [(t1, c1, 500, e1), (t2, c2, 600, e2), (t3, c3, 700, e3), (t4, c4, 800, e4),
                   (t5, c5, 900, e5)]) eid vid) = Some 5"
    by (simp del: record_all.simps add: metrics_row_record_all [OF assms(2) nn] spec_update_def)
  from 1 2 3 show ?thesis by blast
qed

theorem record_metrics_online_update_witness:
  "map_option total_requests
     (metrics_row (snd (record_metrics used_manager ''test_exp_1'' ''control'' 100 (1 / 100) 700 True))
        ''test_exp_1'' ''control'') = Some 2
   \<and> map_option avg_latency_ms
     (metrics_row (snd (record_metrics used_manager ''test_exp_1'' ''control'' 100 (1 / 100) 700 True))
        ''test_exp_1'' ''control'') = Some 600
   \<and> map_option error_rate
     (metrics_row (snd (record_metrics used_manager ''test_exp_1'' ''control'' 100 (1 / 100) 700 True))
        ''test_exp_1'' ''control'') = Some (1 / 2)
   \<and> map_option avg_latency_ms
        (metrics_row
           (record_all test_manager ''test_exp_1'' ''control''
              [(100, 1 / 100, 500, False), (100, 1 / 100, 600, False), (100, 1 / 100, 700, False),
               (100, 1 / 100, 800, False), (100, 1 / 100, 900, False)]) ''test_exp_1'' ''control'')
       = Some 700
   \<and> map_option total_requests
        (metrics_row
           (record_all test_manager ''test_exp_1'' ''control''
              [(100, 1 / 100, 500, False), (100, 1 / 100, 600, False), (100, 1 / 100, 700, False),
               (100, 1 / 100, 800, False), (100, 1 / 100, 900, False)]) ''test_exp_1'' ''control'')
       = Some 5"
proof -
  have row: "metrics_row test_manager ''test_exp_1'' ''control'' = Some (new_metrics ''control'')"
    by (simp add: test_manager_eq metrics_row_def)
  have z: "total_requests (new_metrics ''control'') = 0 \<and> avg_latency_ms (new_metrics ''control'') = 0"
    by (simp add: new_metrics_def)
  show ?thesis
    using record_metrics_online_update [OF reachable_used_manager used_manager_rows(1),
            of 100 "1 / 100" 700 True]
      record_metrics_online_update [OF reachable_test_manager row,
            of 0 0 0 False 100 "1 / 100" False 100 "1 / 100" False 100 "1 / 100" False
               100 "1 / 100" False 100 "1 / 100" False]
      z
    by (simp del: record_all.simps add: spec_update_def new_metrics_def metrics_row_store_row)
qed

subsection \<open>The assignment loop\<close>

lemma hex_digit_Some:
  "c \<in> set ''0123456789abcdef'' \<Longrightarrow> \<exists>d. hex_digit c = Some d"
  by (auto simp: hex_digit_def)

lemma int_base16_acc_hex:
  "list_all (\<lambda>c. c \<in> set ''0123456789abcdef'') s \<Longrightarrow>
     int_base16_acc a s = Some (foldl (\<lambda>a c. 16 * a + the (hex_digit c)) a s)"
proof (induction s arbitrary: a)
  case Nil
  then show ?case by simp
next
  case (Cons c cs)
  then obtain d where d: "hex_digit c = Some d"
    using hex_digit_Some [of c] by auto
  with Cons show ?case by simp
qed

lemma int_base16_hexdigest:
  assumes "is_hexdigest s"
  shows "int_base16 (take 16 s) = Some (hex_value (take 16 s))"
proof -
  have "length s = 64" using assms unfolding is_hexdigest_def by (rule conjunct1)
  then have "take 16 s \<noteq> []" by auto
  moreover have "list_all (\<lambda>c. c \<in> set ''0123456789abcdef'') (take 16 s)"
  proof -
    have "list_all (\<lambda>c. c \<in> set ''0123456789abcdef'') s"
      using assms unfolding is_hexdigest_def by (rule conjunct2)
    then show ?thesis
      unfolding list_all_iff by (meson in_set_takeD)
  qed
  ultimately show ?thesis
    by (simp add: int_base16_def hex_value_def int_base16_acc_hex)
qed

lemma find_map_Suc:
  "find P (map Suc xs) = map_option Suc (find (\<lambda>i. P (Suc i)) xs)"
  by (induction xs) simp_all

lemma assign_loop_find:
  assumes "\<forall>v \<in> set vs. map_of split (variant_id v) \<noteq> None"
  shows "assign_loop split x c vs =
           Inr (map_option (\<lambda>i. vs ! i)
                  (find (\<lambda>i. x < foldl (+) c
                                    (map (\<lambda>v. the (map_of split (variant_id v))) (take (Suc i) vs)))
                     [0..<length vs]))"
  using assms
proof (induction vs arbitrary: c)
  case Nil
  then show ?case by simp
next
  case (Cons v vs)
  then obtain f where f: "map_of split (variant_id v) = Some f" by auto
  have upt: "[0..<length (v # vs)] = 0 # map Suc [0..<length vs]"
    by (simp add: upt_conv_Cons map_Suc_upt del: upt_Suc)
  have IH: "assign_loop split x (c + f) vs =
              Inr (map_option (\<lambda>i. vs ! i)
                     (find (\<lambda>i. x < foldl (+) (c + f)
                                       (map (\<lambda>v. the (map_of split (variant_id v))) (take (Suc i) vs)))
                        [0..<length vs]))"
    using Cons by simp
  show ?case
    unfolding upt
    by (simp add: f IH find_map_Suc comp_def option.map_comp)
qed

lemma assign_loop_spec:
  assumes "\<forall>v \<in> set vs. map_of split (variant_id v) \<noteq> None" and "vs \<noteq> []"
  shows "(case assign_loop split x 0 vs of
            Inl err \<Rightarrow> Inl err
          | Inr (Some v) \<Rightarrow> Inr (Some v)
          | Inr None \<Rightarrow> (case vs of [] \<Rightarrow> Inl IndexError | v # _ \<Rightarrow> Inr (Some v)))
         = Inr (Some (spec_assign split vs x))"
proof -
  obtain v rest where vs: "vs = v # rest" using assms(2) by (cases vs) auto
  show ?thesis
    by (simp add: assign_loop_find [OF assms(1)] spec_assign_def cumulative_fraction_def
          py_sum_def)
       (simp add: vs split: option.splits)
qed

lemma spec_random_value_range:
  "0 \<le> spec_random_value h slt eid uid \<and> spec_random_value h slt eid uid < 1"
proof -
  let ?n = "hex_value (take 16 (h (eid @ '':'' @ uid @ '':'' @ slt))) mod 10000"
  have "?n < 10000" by simp
  then have "(of_nat ?n :: rat) < of_nat 10000" by (simp only: of_nat_less_iff)
  then show ?thesis by (simp add: spec_random_value_def)
qed

subsection \<open>Assignment when the end date can be compared\<close>

text \<open>
  For every registered, active experiment whose end date is missing, or is naive and has
  not passed, \<open>assign_variant\<close> returns the variant that the rule of the specification
  gives, and the value of the rule lies in [0,1).
\<close>

lemma assign_variant_spec:
  assumes "reachable self"
    and "map_of (experiments self) eid = Some e"
    and "is_active e"
    and "end_date_passed now (end_date e) = Inr False"
    and "is_hexdigest (sha256_hexdigest (eid @ '':'' @ uid @ '':'' @ salt self))"
  shows "assign_variant sha256_hexdigest now self eid uid =
           Inr (Some (spec_assign (traffic_split e) (variants e)
                        (spec_random_value sha256_hexdigest (salt self) eid uid)))
     \<and> 0 \<le> spec_random_value sha256_hexdigest (salt self) eid uid
     \<and> spec_random_value sha256_hexdigest (salt self) eid uid < 1"
proof -
  have v: "valid_config e"
    using reachable_inv [OF assms(1)] assms(2) by (auto simp: manager_inv_def)
  have keys: "\<forall>v \<in> set (variants e). map_of (traffic_split e) (variant_id v) \<noteq> None"
  proof
    fix x assume "x \<in> set (variants e)"
    then have "variant_id x \<in> set (map variant_id (variants e))" by simp
    then have "variant_id x \<in> fst ` set (traffic_split e)"
      using v by (simp add: valid_config_def)
    then show "map_of (traffic_split e) (variant_id x) \<noteq> None"
      by (simp add: map_of_eq_None_iff)
  qed
  have ne: "variants e \<noteq> []" by (rule valid_config_variants [OF v])
  have "assign_variant sha256_hexdigest now self eid uid =
           Inr (Some (spec_assign (traffic_split e) (variants e)
                        (spec_random_value sha256_hexdigest (salt self) eid uid)))"
    using int_base16_hexdigest [OF assms(5)] assms(2,3,4)
    unfolding assign_variant_def spec_random_value_def
    by (simp add: Let_def assign_loop_spec [OF keys ne])
  then show ?thesis using spec_random_value_range by blast
qed

lemma test_digest_value:
  "hex_value (take 16 ''c84b88a5f60fccd9928aa7742545c6e2bec3943b3c011534336036acedf5ab97'')
     = 14432779677218098393"
  by (simp add: hex_value_def hex_digit_def)

lemma test_digest_user_123:
  "test_digest (''test_exp_1'' @ '':'' @ ''user_123'' @ '':'' @ ''default-salt'')
     = ''c84b88a5f60fccd9928aa7742545c6e2bec3943b3c011534336036acedf5ab97''"
  by (simp add: test_digest_def)

lemma spec_random_value_user_123:
  "spec_random_value test_digest ''default-salt'' ''test_exp_1'' ''user_123'' = 8393 / 10000"
  unfolding spec_random_value_def test_digest_user_123 test_digest_value by simp

lemma spec_assign_user_123:
  "spec_assign [(''control'', 1 / 2), (''variant_a'', 1 / 2)] [control_variant, variant_a]
     (8393 / 10000) = variant_a"
  by (simp add: spec_assign_def cumulative_fraction_def py_sum_def control_variant_def
        variant_a_def upt_rec)

lemma assign_variant_spec_example:
  "assign_variant test_digest 0 test_manager ''test_exp_1'' ''user_123'' = Inr (Some variant_a)
   \<and> spec_random_value test_digest ''default-salt'' ''test_exp_1'' ''user_123'' = 8393 / 10000"
proof -
  have reg: "map_of (experiments test_manager) ''test_exp_1'' = Some test_experiment"
    by (simp add: test_manager_eq)
  have act: "is_active test_experiment"
    and live: "end_date_passed 0 (end_date test_experiment) = Inr False"
    by (simp_all add: test_experiment_def end_date_passed_def)
  have slt: "salt test_manager = ''default-salt''" by (simp add: test_manager_eq)
  have hex: "is_hexdigest (test_digest (''test_exp_1'' @ '':'' @ ''user_123'' @ '':'' @ salt test_manager))"
    unfolding slt test_digest_user_123 by (simp add: is_hexdigest_def)
  have pick: "spec_assign (traffic_split test_experiment) (variants test_experiment) (8393 / 10000)
                = variant_a"
    using spec_assign_user_123 by (simp add: test_experiment_def)
  show ?thesis
    using assign_variant_spec
            [where self = test_manager and eid = "''test_exp_1''" and e = test_experiment
               and now = 0 and sha256_hexdigest = test_digest and uid = "''user_123''",
             OF reachable_test_manager reg act live hex]
    by (simp add: slt spec_random_value_user_123 pick)
qed

lemma valid_aware_experiment: "valid_config aware_experiment" "valid_config naive_experiment"
  by (simp_all add: valid_config_def aware_experiment_def naive_experiment_def
        test_experiment_def control_variant_def variant_a_def)

lemma aware_manager_experiments:
  "map_of (experiments aware_manager) ''test_exp_1'' = Some aware_experiment"
  "map_of (experiments naive_manager) ''test_exp_1'' = Some naive_experiment"
  "salt aware_manager = ''default-salt''"
  "salt naive_manager = ''default-salt''"
proof -
  have ids: "experiment_id aware_experiment = ''test_exp_1''"
    "experiment_id naive_experiment = ''test_exp_1''"
    by (simp_all add: aware_experiment_def naive_experiment_def test_experiment_def)
  show "map_of (experiments aware_manager) ''test_exp_1'' = Some aware_experiment"
    and "salt aware_manager = ''default-salt''"
    by (simp_all add: aware_manager_def create_experiment_valid [OF valid_aware_experiment(1)]
          init_manager_def ids)
  show "map_of (experiments naive_manager) ''test_exp_1'' = Some naive_experiment"
    and "salt naive_manager = ''default-salt''"
    by (simp_all add: naive_manager_def create_experiment_valid [OF valid_aware_experiment(2)]
          init_manager_def ids)
qed

lemma assign_variant_aware_raises:
  assumes "map_of (experiments self) eid = Some e" and "is_active e"
    and "end_date e = Some (Aware d)"
  shows "assign_variant sha256_hexdigest now self eid uid = Inl TypeError"
  using assms by (simp add: assign_variant_def end_date_passed_def)

subsection \<open>C1: deterministic assignment\<close>

text \<open>
  Claim C1. For every registered, active experiment whose end date has not passed, and
  every user id, \<open>assign_variant\<close> returns the variant that the rule of the specification
  gives: the first 16 hexadecimal digits of the SHA-256 digest of
  \<open>experimentId:userId:salt\<close>, read as an unsigned integer, reduced modulo 10000 and
  divided by 10000, give a value in [0,1); the result is the first variant in declared
  order whose cumulative traffic fraction strictly exceeds the value, and the first
  declared variant when there is none. The code does not for an aware end date: it
  compares the naive \<open>datetime.utcnow()\<close> with the end date, and Python raises
  \<open>TypeError\<close>. \<open>aware_experiment\<close> is registered and active and ends in 2030; on
  2025-11-04 the rule of the claim gives \<open>variant_a\<close> for \<open>user_123\<close>, and the code raises.
  With the same end date written without an offset the code returns \<open>variant_a\<close>.
\<close>

theorem assign_variant_aware_end_date:
  "fst (create_experiment (init_manager ''default-salt'') aware_experiment) = True
   \<and> map_of (experiments aware_manager) ''test_exp_1'' = Some aware_experiment
   \<and> is_active aware_experiment
   \<and> end_date aware_experiment = Some (Aware 1893456000)
   \<and> (1762214400 :: int) \<le> 1893456000
   \<and> spec_assign (traffic_split aware_experiment) (variants aware_experiment)
         (spec_random_value test_digest (salt aware_manager) ''test_exp_1'' ''user_123'')
       = variant_a
   \<and> assign_variant test_digest 1762214400 aware_manager ''test_exp_1'' ''user_123''
       = Inl TypeError
   \<and> assign_variant test_digest 1762214400 naive_manager ''test_exp_1'' ''user_123''
       = Inr (Some variant_a)"
proof -
  have hv: "int_base16 (take 16 ''c84b88a5f60fccd9928aa7742545c6e2bec3943b3c011534336036acedf5ab97'')
              = Some 14432779677218098393"
    by (simp add: int_base16_def hex_digit_def)
  have 1: "fst (create_experiment (init_manager ''default-salt'') aware_experiment) = True"
    by (simp add: create_experiment_valid [OF valid_aware_experiment(1)])
  have 2: "is_active aware_experiment" "end_date aware_experiment = Some (Aware 1893456000)"
    by (simp_all add: aware_experiment_def test_experiment_def)
  have 3: "spec_assign (traffic_split aware_experiment) (variants aware_experiment)
         (spec_random_value test_digest (salt aware_manager) ''test_exp_1'' ''user_123'')
       = variant_a"
    using spec_assign_user_123
    by (simp add: aware_manager_experiments spec_random_value_user_123 aware_experiment_def
          test_experiment_def)
  have 4: "assign_variant test_digest 1762214400 aware_manager ''test_exp_1'' ''user_123''
       = Inl TypeError"
    by (simp add: assign_variant_def aware_manager_experiments 2 end_date_passed_def)
  have 5: "assign_variant test_digest 1762214400 naive_manager ''test_exp_1'' ''user_123''
       = Inr (Some variant_a)"
    using test_digest_user_123 hv
    by (simp add: assign_variant_def aware_manager_experiments end_date_passed_def
          naive_experiment_def test_experiment_def control_variant_def variant_a_def Let_def)
  from 1 2 3 4 5 aware_manager_experiments(1) show ?thesis by simp
qed

lemma rated_manager_eq:
  "rated_manager =
     \<lparr>experiments = [(''test_exp_1'', test_experiment)],
      metrics = [(''test_exp_1'',
        [(''control'',
          \<lparr>m_variant_id = ''control'', total_requests = 1, total_tokens = 100,
           total_cost = 1 / 100, avg_latency_ms = 500, error_rate = 0,
           user_satisfaction = Some 0\<rparr>),
         (''variant_a'',
          \<lparr>m_variant_id = ''variant_a'', total_requests = 1, total_tokens = 100,
           total_cost = 1 / 100, avg_latency_ms = 500, error_rate = 0,
           user_satisfaction = Some (4 / 10)\<rparr>)])],
      salt = ''default-salt''\<rparr>"
  by (simp add: rated_manager_def test_manager_eq record_metrics_def record_satisfaction_def
        store_row_def metrics_getitem_def new_metrics_def Let_def)

lemma reachable_rated_manager: "reachable rated_manager"
  unfolding rated_manager_def by (intro reachable.intros reachable_test_manager)

subsection \<open>The winner loop\<close>

text \<open>
  The loop of \<open>get_winner\<close> returns the first variant whose score is the highest. Where
  no recorded satisfaction is 0.0 the score of the code is the score of the specification,
  and so is the winner.
\<close>

lemma winner_loop_max:
  "winner_loop rs bv (Some b) =
     (if \<exists>x \<in> set rs. variant_score (snd x) > b
      then map_option fst
             (find (\<lambda>x. variant_score (snd x) = Max ((\<lambda>x. variant_score (snd x)) ` set rs)) rs)
      else bv)"
proof (induction rs arbitrary: bv b)
  case Nil
  then show ?case by simp
next
  case (Cons x rs)
  obtain v r where x: "x = (v, r)" by (cases x)
  let ?f = "\<lambda>x. variant_score (snd x)"
  let ?s = "variant_score r"
  let ?S = "?f ` set rs"
  have fin: "finite ?S" by simp
  have step: "winner_loop (x # rs) bv (Some b) =
                (if ?s > b then winner_loop rs (Some v) (Some ?s) else winner_loop rs bv (Some b))"
    by (simp add: x)
  have img: "?f ` set (x # rs) = insert ?s ?S" by (simp add: x)
  have fx: "?f x = ?s" by (simp add: x)
  show ?case
  proof (cases "\<exists>y \<in> set rs. ?f y > max ?s b")
    case True
    then obtain y where y: "y \<in> set rs" "?f y > ?s" "?f y > b" by auto
    then have ne: "?S \<noteq> {}" by auto
    have "?f y \<in> ?S" using y(1) by (rule imageI)
    then have ge: "?f y \<le> Max ?S" using fin by (rule Max_ge [rotated])
    have big1: "Max ?S > ?s" using ge y(2) by (rule less_le_trans [rotated])
    have big2: "Max ?S > b" using ge y(3) by (rule less_le_trans [rotated])
    have M: "Max (insert ?s ?S) = Max ?S"
      using big1 unfolding Max_insert [OF fin ne] by (simp add: max_def)
    have ex1: "\<exists>y \<in> set rs. ?f y > ?s" and ex2: "\<exists>y \<in> set rs. ?f y > b"
      using y by auto
    have ex3: "\<exists>y \<in> set (x # rs). ?f y > b" using ex2 by auto
    have nx: "?f x \<noteq> Max ?S" using big1 fx by simp
    show ?thesis
      unfolding step img M if_P [OF ex3] Cons.IH if_P [OF ex1] if_P [OF ex2]
      using nx by simp
  next
    case False
    then have all: "\<forall>y \<in> set rs. ?f y \<le> max ?s b" by (auto simp: not_less)
    show ?thesis
    proof (cases "?s > b")
      case True
      then have le: "\<forall>y \<in> set rs. ?f y \<le> ?s" using all by (auto simp: max_def)
      then have "\<And>a. a \<in> ?S \<Longrightarrow> a \<le> ?s" by auto
      then have M: "Max (insert ?s ?S) = ?s"
        using fin by (intro Max_eqI) auto
      have nex: "\<not> (\<exists>y \<in> set rs. ?f y > ?s)" using le by (auto simp: not_less)
      have ex3: "\<exists>y \<in> set (x # rs). ?f y > b" using True fx by auto
      show ?thesis
        unfolding step img M if_P [OF ex3] if_P [OF True] Cons.IH if_not_P [OF nex]
        by (simp add: x)
    next
      case False
      then have le: "\<forall>y \<in> set rs. ?f y \<le> b" using all by (auto simp: max_def)
      then have nex: "\<not> (\<exists>y \<in> set rs. ?f y > b)" by (auto simp: not_less)
      have nex3: "\<not> (\<exists>y \<in> set (x # rs). ?f y > b)" using nex False fx by auto
      show ?thesis
        unfolding step if_not_P [OF nex3] if_not_P [OF False] Cons.IH if_not_P [OF nex]
        by (rule refl)
    qed
  qed
qed


lemma winner_loop_first:
  "winner_loop ((v, r) # rs) None None = winner_loop rs (Some v) (Some (variant_score r))"
  by simp

lemma winner_loop_spec:
  assumes "\<forall>x \<in> set rs. r_user_satisfaction (snd x) \<noteq> Some 0"
  shows "winner_loop rs None None = spec_winner rs"
proof (cases rs)
  case Nil
  then show ?thesis by (simp add: spec_winner_def)
next
  case (Cons x rs')
  obtain v r where x: "x = (v, r)" by (cases x)
  have same: "\<And>y. y \<in> set rs \<Longrightarrow> variant_score (snd y) = spec_score (snd y)"
    using assms
    by (auto simp: variant_score_def spec_score_def or_default_def mult.commute
          split: option.splits)
  let ?f = "\<lambda>x. variant_score (snd x)"
  let ?g = "\<lambda>(vid, r). spec_score r"
  have fg: "\<And>y. y \<in> set rs \<Longrightarrow> ?g y = ?f y"
    using same by (auto simp: case_prod_beta)
  have img: "set (map ?g rs) = ?f ` set rs"
    using fg by (auto simp: image_iff)
  have fnd: "find (\<lambda>y. ?g y = Max (?f ` set rs)) rs = find (\<lambda>y. ?f y = Max (?f ` set rs)) rs"
    using fg by (intro find_cong) auto
  have ne: "rs \<noteq> []" using Cons by simp
  have g_eq: "(\<lambda>(vid, r). spec_score r = Max (set (map ?g rs))) = (\<lambda>y. ?g y = Max (?f ` set rs))"
    unfolding img by (simp add: case_prod_beta fun_eq_iff)
  have spec: "spec_winner rs = map_option fst (find (\<lambda>y. ?f y = Max (?f ` set rs)) rs)"
    unfolding spec_winner_def g_eq fnd using ne by simp
  let ?s = "variant_score r"
  let ?S = "?f ` set rs'"
  have loop: "winner_loop rs None None =
                (if \<exists>y \<in> set rs'. ?f y > ?s
                 then map_option fst (find (\<lambda>y. ?f y = Max ?S) rs') else Some v)"
    by (simp add: Cons x winner_loop_max)
  show ?thesis
  proof (cases "\<exists>y \<in> set rs'. ?f y > ?s")
    case True
    then obtain y where y: "y \<in> set rs'" "?f y > ?s" by auto
    then have ne: "?S \<noteq> {}" by auto
    have "?f y \<le> Max ?S" using y(1) by (intro Max_ge) auto
    then have big: "Max ?S > ?s" using y(2) by simp
    then have M: "Max (?f ` set rs) = Max ?S"
      using ne by (simp add: Cons x max_def)
    show ?thesis
      unfolding loop spec M using True big by (simp add: Cons x)
  next
    case False
    then have "\<And>a. a \<in> ?S \<Longrightarrow> a \<le> ?s" by (auto simp: not_less)
    then have "Max (insert ?s ?S) = ?s" by (intro Max_eqI) auto
    then have M: "Max (?f ` set rs) = ?s" by (simp add: Cons x)
    show ?thesis
      unfolding loop spec M using False by (simp add: Cons x)
  qed
qed

lemma get_winner_spec:
  assumes "get_experiment_results self eid = (Some results, self')"
    and "\<forall>x \<in> set results. r_user_satisfaction (snd x) \<noteq> Some 0"
  shows "fst (get_winner self eid) = spec_winner results"
  by (simp add: get_winner_def assms(1) winner_loop_spec [OF assms(2)])


subsection \<open>C7: the winner\<close>

text \<open>
  Claim C7. \<open>get_winner\<close> scores each variant as
  \<open>0.4*(1-errorRate) + 0.3*(1 - min(avgLatencyMs/5000, 1)) + 0.3*satisfaction\<close>, with 0.5
  for the satisfaction only when none is recorded and a recorded 0.0 used as it is, and
  returns the first variant with the highest score. The code does not: \<open>x or 0.5\<close> takes
  a recorded 0.0 for 0.5. In \<open>rated_manager\<close> the two variants differ only in their
  recorded satisfaction, 0.0 against 0.4; the rule of the claim scores them 0.67 and 0.79
  and picks \<open>variant_a\<close>, the code scores them 0.82 and 0.79 and returns \<open>control\<close>.
\<close>

theorem get_winner_zero_satisfaction:
  "fst (get_winner rated_manager ''test_exp_1'') = Some ''control''
   \<and> map_option spec_winner (fst (get_experiment_results rated_manager ''test_exp_1''))
       = Some (Some ''variant_a'')
   \<and> map_option (map (\<lambda>(vid, r). (vid, variant_score r, spec_score r)))
        (fst (get_experiment_results rated_manager ''test_exp_1''))
       = Some [(''control'', 82 / 100, 67 / 100), (''variant_a'', 79 / 100, 79 / 100)]"
  by (simp add: rated_manager_eq get_winner_def get_experiment_results_def metrics_getitem_def
        variant_snapshot_def variant_score_def spec_score_def spec_winner_def or_default_def Let_def)

subsection \<open>The fail-over loops\<close>

lemma tried_until_Nil [simp]: "tried_until stop [] = []"
  by (simp add: tried_until_def)

lemma tried_until_Cons [simp]:
  "tried_until stop (x # xs) = (if stop x then [x] else x # tried_until stop xs)"
  by (simp add: tried_until_def)

lemma registered_Nil [simp]: "registered self [] = []"
  by (simp add: registered_def)

lemma registered_Cons [simp]:
  "registered self ((k, name) # xs) =
     (case map_of (providers self) name of
        None \<Rightarrow> registered self xs
      | Some p \<Rightarrow> (k, name, p) # registered self xs)"
  by (simp add: registered_def split: option.splits)

lemma select_model_has_models:
  assumes "has_models self" and "map_of (providers self) name = Some p"
  shows "select_model_for_provider p requested = Inr (chosen_model p requested)"
proof -
  have "(name, p) \<in> set (providers self)" using assms(2) by (rule map_of_SomeD)
  then have "supported_models p \<noteq> []"
    using assms(1) by (auto simp: has_models_def list_all_iff)
  then obtain m ms where "supported_models p = m # ms" by (cases "supported_models p") auto
  then show ?thesis
    by (auto simp: chosen_model_def select_model_for_provider_def Let_def)
qed

lemma tried_Nil [simp]: "tried fb n ending [] = []"
  by (simp add: tried_def)

lemma tried_Cons [simp]:
  "tried fb n ending (c # cs) =
     (if stops_after fb n (fst c) (ending c) then [c] else c # tried fb n ending cs)"
  by (simp add: tried_def)



lemma stream_loop_tried:
  assumes "has_models self"
  shows "stream_loop self fb args req n xs le tr =
     (tr @ concat (map (stream_events fb n args req)
                     (tried fb n (stream_ending args req) (registered self xs))),
      (let cs = tried fb n (stream_ending args req) (registered self xs) in
       if cs = [] then Some (all_streaming_failed le)
       else
         (case stream_ending args req (last cs) of
            None \<Rightarrow> None
          | Some e \<Rightarrow> Some (all_streaming_failed (Some e)))))"
proof (induction xs arbitrary: le tr)
  case Nil
  then show ?case by simp
next
  case (Cons x xs)
  obtain k name where x: "x = (k, name)" by (cases x)
  show ?case
  proof (cases "map_of (providers self) name")
    case None
    then show ?thesis by (simp add: x Cons.IH)
  next
    case (Some p)
    note sel = select_model_has_models [OF assms Some, of req]
    obtain chunks ending where sc: "stream_complete p args (chosen_model p req) = (chunks, ending)"
      by (cases "stream_complete p args (chosen_model p req)")
    then have se: "stream_ending args req (k, name, p) = ending"
      by (simp add: stream_ending_def)
    show ?thesis
    proof (cases ending)
      case None
      show ?thesis
        by (simp add: x Some sel sc se None stops_after_def stream_events_def backoff_def)
    next
      case (Some e)
      note ending = this
      show ?thesis
      proof (cases "fb \<and> k < n")
        case True
        have step: "stream_loop self fb args req n ((k, name) # xs) le tr =
                      stream_loop self fb args req n xs (Some e)
                        (tr @ Attempt name (chosen_model p req) # map Yield chunks
                            @ backoff fb n k (Some e))"
          using True by (cases e) (simp_all add: \<open>map_of (providers self) name = Some p\<close> sel sc ending backoff_def)
        have st: "\<not> stops_after fb n k (Some e)"
          using True by (simp add: stops_after_def)
        show ?thesis
          unfolding x step
          by (simp add: \<open>map_of (providers self) name = Some p\<close> Cons.IH se sc ending st
                stream_events_def Let_def)
      next
        case False
        have step: "stream_loop self fb args req n ((k, name) # xs) le tr =
                      (tr @ Attempt name (chosen_model p req) # map Yield chunks,
                       Some (all_streaming_failed (Some e)))"
          using False by (cases e) (auto simp: \<open>map_of (providers self) name = Some p\<close> sel sc ending)
        have st: "stops_after fb n k (Some e)"
          using False by (simp add: stops_after_def)
        have bo: "backoff fb n k (Some e) = ([] :: 'c event list)"
          using False by (cases e) (auto simp: backoff_def)
        show ?thesis
          unfolding x step
          by (simp add: \<open>map_of (providers self) name = Some p\<close> se sc ending st bo
                stream_events_def Let_def)
      qed
    qed
  qed
qed

lemmas example_defs =
  openai_limited_def openai_cut_def anthropic_ok_def anthropic_down_def limited_then_ok_def
  cut_then_ok_def all_down_def

lemmas call_defs =
  complete_with_fallback_def stream_with_fallback_def provider_order_def enumerate1_def
  select_model_for_provider_def all_providers_failed_def all_streaming_failed_def
  str_last_error_def Let_def

subsection \<open>C2: the order of attempts and the backoff\<close>




subsection \<open>C3: the error when every provider fails\<close>

text \<open>
  Claim C3. When every candidate fails, the error raised names every attempted provider
  with its failure reason, and the last raw error. \<open>complete_with_fallback\<close> does so;
  \<open>stream_with_fallback\<close> keeps no list of attempts and raises a message with the last
  error alone. With \<open>openai\<close> rate limited and \<open>anthropic\<close> failing, the streaming error
  names neither provider.
\<close>

theorem stream_failure_message_lacks_attempts:
  "snd (stream_with_fallback all_down True () None None)
     = Some (Raised_Exception ''All streaming providers failed. Last error: overloaded'')
   \<and> attempted (fst (stream_with_fallback all_down True () None None)) = [''openai'', ''anthropic'']
   \<and> snd (complete_with_fallback all_down True () None None)
     = Inl (Raised_Exception
         ''All providers failed. Attempts: openai: Rate limit exceeded; anthropic: overloaded. Last error: overloaded'')"
  by (simp add: call_defs example_defs attempted_def)

subsection \<open>C4: fail-over while streaming\<close>

text \<open>
  Claim C4, as the code has it. \<open>stream_with_fallback\<close> decides the fail-over as
  \<open>complete_with_fallback\<close> does, from the kind of failure, the fallback setting and the
  position alone: whether chunks were already yielded plays no part. The chunks of a
  provider that fails stay delivered, and the chunks of the next candidate follow them.
  This holds when every registered provider supports at least one model.
\<close>

theorem stream_with_fallback_candidates:
  assumes "has_models self"
  shows "stream_with_fallback self enable_fallback args requested provider_name =
           (let order = provider_order self provider_name;
                n = length order;
                cs = tried enable_fallback n (stream_ending args requested) (candidates self order)
            in (concat (map (stream_events enable_fallback n args requested) cs),
                stream_result args requested cs))"
  by (simp add: stream_with_fallback_def stream_loop_tried [OF assms] candidates_def
        stream_result_def Let_def)

text \<open>A rate limit before the first chunk: a sleep of 2 seconds, then the next provider streams.\<close>

theorem stream_with_fallback_candidates_witness:
  "stream_with_fallback limited_then_ok True () None None =
     ([Attempt ''openai'' ''gpt-4'', Sleep 2, Attempt ''anthropic'' ''claude-3-sonnet-20240229'',
       Yield ''Hello'', Yield '' world''], None)"
proof -
  have hm: "has_models limited_then_ok"
    by (simp add: has_models_def example_defs)
  show ?thesis
    using stream_with_fallback_candidates [OF hm, of True "()" None None]
    by (simp add: call_defs example_defs candidates_def stream_ending_def chosen_model_def
          stops_after_def stream_events_def backoff_def stream_result_def)
qed

text \<open>
  Claim C4 as stated fails: after the chunk \<open>Hel\<close> was yielded the provider raised, and
  the generator went on with the next provider and returned normally, with no error.
\<close>

theorem stream_restarts_after_chunk:
  "stream_with_fallback cut_then_ok True () None None =
     ([Attempt ''openai'' ''gpt-4'', Yield ''Hel'',
       Attempt ''anthropic'' ''claude-3-sonnet-20240229'', Yield ''Hello'', Yield '' world''],
      None)"
  by (simp add: call_defs example_defs)

subsection \<open>The store after the override\<close>

lemma apply_variant_objects:
  assumes "req_objs st r = Some req" and "list_objs st (req_messages req) = Some msgs"
  shows "req_objs (apply_variant st r v) r =
           Some (req\<lparr>req_provider := Some (provider v), req_model := Some (model v),
                     req_temperature := Some (temperature v),
                     req_max_tokens :=
                       (if truthy_int (max_tokens v) then max_tokens v else req_max_tokens req)\<rparr>)"
    and "list_objs (apply_variant st r v) (req_messages req) =
           Some ((if truthy_str (system_prompt v)
                  then [\<lparr>role = ''system'', content = the (system_prompt v)\<rparr>] else []) @ msgs)"
    and "r' \<noteq> r \<Longrightarrow> req_objs (apply_variant st r v) r' = req_objs st r'"
    and "l \<noteq> req_messages req \<Longrightarrow> list_objs (apply_variant st r v) l = list_objs st l"
  using assms by (simp_all add: apply_variant_def Let_def)

lemma experiment_override_assigned:
  assumes "experiment_override enable_ab_testing h now mgr st r = Inr (Some v, st')"
  shows "st' = apply_variant st r v"
  using assms
  by (auto simp: experiment_override_def split: option.splits if_splits sum.splits)

lemma prompt_manager_eq:
  "prompt_manager =
     \<lparr>experiments = [(''test_exp_1'', test_experiment\<lparr>variants := [control_variant, prompt_variant]\<rparr>)],
      metrics = [(''test_exp_1'',
                  [(''control'', new_metrics ''control''), (''variant_a'', new_metrics ''variant_a'')])],
      salt = ''default-salt''\<rparr>"
proof -
  have "valid_config (test_experiment\<lparr>variants := [control_variant, prompt_variant]\<rparr>)"
    by (simp add: valid_config_def test_experiment_def control_variant_def variant_a_def
          prompt_variant_def)
  then show ?thesis
    by (simp add: prompt_manager_def create_experiment_valid test_manager_eq)
       (simp add: metrics_getitem_def test_experiment_def control_variant_def variant_a_def
          prompt_variant_def)
qed

lemma prompt_manager_assigns:
  "assign_variant test_digest 0 prompt_manager ''test_exp_1'' ''user_123''
     = Inr (Some prompt_variant)"
proof -
  have dig: "test_digest (''test_exp_1'' @ '':'' @ ''user_123'' @ '':'' @ ''default-salt'')
               = ''c84b88a5f60fccd9928aa7742545c6e2bec3943b3c011534336036acedf5ab97''"
    by (rule test_digest_user_123)
  have hv: "int_base16 (take 16 ''c84b88a5f60fccd9928aa7742545c6e2bec3943b3c011534336036acedf5ab97'')
              = Some 14432779677218098393"
    by (simp add: int_base16_def hex_digit_def)
  show ?thesis
    using dig hv
    by (simp add: assign_variant_def end_date_passed_def prompt_manager_eq test_experiment_def
          control_variant_def variant_a_def prompt_variant_def Let_def)
qed

lemma override_request_store:
  "experiment_override True test_digest 0 prompt_manager request_store 0
     = Inr (Some prompt_variant, apply_variant request_store 0 prompt_variant)"
  using prompt_manager_assigns
  by (simp add: experiment_override_def request_store_def truthy_str_def)

subsection \<open>C9: the experiment override\<close>

text \<open>
  Claim C9, as the code has it. When a variant is assigned, the override step works on
  the request object it was given, in place: provider, model and temperature are
  overwritten with the variant's, \<open>max_tokens\<close> is overwritten when the variant's is set
  and not zero, and a non-empty system prompt is inserted as a new first message into the
  very list the request refers to. The messages that were there stay, in their order,
  behind it: an existing system message is neither replaced nor removed. No other object
  of the store changes.
\<close>

theorem experiment_override_in_place:
  assumes "experiment_override enable_ab_testing sha256_hexdigest now mgr st r = Inr (Some v, st')"
    and "req_objs st r = Some req"
    and "list_objs st (req_messages req) = Some msgs"
  shows "req_objs st' r =
           Some (req\<lparr>req_provider := Some (provider v), req_model := Some (model v),
                     req_temperature := Some (temperature v),
                     req_max_tokens :=
                       (if truthy_int (max_tokens v) then max_tokens v else req_max_tokens req)\<rparr>)
     \<and> list_objs st' (req_messages req) =
           Some ((if truthy_str (system_prompt v)
                  then [\<lparr>role = ''system'', content = the (system_prompt v)\<rparr>] else []) @ msgs)
     \<and> (\<forall>r'. r' \<noteq> r \<longrightarrow> req_objs st' r' = req_objs st r')
     \<and> (\<forall>l. l \<noteq> req_messages req \<longrightarrow> list_objs st' l = list_objs st l)"
  unfolding experiment_override_assigned [OF assms(1)]
  using apply_variant_objects [OF assms(2,3)] by blast

text \<open>The override on the example request: every overridden field and the prepended message.\<close>

theorem experiment_override_in_place_witness:
  "experiment_override True test_digest 0 prompt_manager request_store 0
     = Inr (Some prompt_variant, apply_variant request_store 0 prompt_variant)
   \<and> req_objs (apply_variant request_store 0 prompt_variant) 0 =
     Some \<lparr>req_messages = 1, req_model = Some ''claude-3-sonnet-20240229'',
           req_provider = Some ''anthropic'', req_stream = False, req_max_tokens = Some 256,
           req_temperature = Some (1 / 2), req_user_id = Some ''user_123'',
           req_session_id = None, req_experiment_id = Some ''test_exp_1''\<rparr>
   \<and> list_objs (apply_variant request_store 0 prompt_variant) 1 =
     Some [\<lparr>role = ''system'', content = ''Answer briefly.''\<rparr>,
           \<lparr>role = ''system'', content = ''You are a support agent.''\<rparr>,
           \<lparr>role = ''user'', content = ''Where is my order?''\<rparr>]"
proof -
  have r: "req_objs request_store 0 =
             Some \<lparr>req_messages = 1, req_model = Some ''gpt-4'', req_provider = None,
                   req_stream = False, req_max_tokens = None, req_temperature = Some (7 / 10),
                   req_user_id = Some ''user_123'', req_session_id = None,
                   req_experiment_id = Some ''test_exp_1''\<rparr>"
    by (simp add: request_store_def)
  have l: "list_objs request_store
             (req_messages \<lparr>req_messages = 1, req_model = Some ''gpt-4'', req_provider = None,
                   req_stream = False, req_max_tokens = None, req_temperature = Some (7 / 10),
                   req_user_id = Some ''user_123'', req_session_id = None,
                   req_experiment_id = Some ''test_exp_1''\<rparr>) =
             Some [\<lparr>role = ''system'', content = ''You are a support agent.''\<rparr>,
                   \<lparr>role = ''user'', content = ''Where is my order?''\<rparr>]"
    by (simp add: request_store_def)
  show ?thesis
    using experiment_override_in_place [OF override_request_store r l] override_request_store
    by (simp add: prompt_variant_def variant_a_def truthy_int_def truthy_str_def)
qed

text \<open>
  Claim C9 as stated fails: the step makes no copy. After it, the request object that
  was handed in has another provider, and its message list has one message more.
\<close>

theorem experiment_override_mutates_request:
  "experiment_override True test_digest 0 prompt_manager request_store 0
     = Inr (Some prompt_variant, apply_variant request_store 0 prompt_variant)
   \<and> map_option req_provider (req_objs request_store 0) = Some None
   \<and> map_option req_provider (req_objs (apply_variant request_store 0 prompt_variant) 0)
       = Some (Some ''anthropic'')
   \<and> map_option length (list_objs request_store 1) = Some 2
   \<and> map_option length (list_objs (apply_variant request_store 0 prompt_variant) 1) = Some 3"
  using override_request_store
  by (simp add: request_store_def apply_variant_def prompt_variant_def variant_a_def
        truthy_int_def truthy_str_def Let_def)

end
